theory Spec2Isabelle
  imports Main "HOL-Library.Word"
begin

unbundle bit_operations_syntax

section \<open>Data model\<close>

text \<open>
  A Python \<open>bytes\<close> value is a list of octets. Exceptions of the source are values of
  \<open>error\<close>; header fields read from the wire are non-negative integers.
\<close>

type_synonym byte = "8 word"

datatype error =
    IndexError
  | KeyError
  | StructError
  | ModbusIOException
  | InvalidMessageReceivedException

text \<open>
  The PDU is an external collaborator; the framers touch only these four attributes
  (\<open>function_code: u8\<close>, \<open>slave_id: u8\<close>, \<open>transaction_id: u16\<close>,
  \<open>protocol_id: u16\<close>). Everything else a PDU carries is the record's extension.
\<close>

record pdu =
  function_code :: "8 word"
  slave_id :: "8 word"
  transaction_id :: "16 word"
  protocol_id :: "16 word"

text \<open>The framer object: \<open>self._buffer\<close> and \<open>self._header\<close>.\<close>

record 'h framer =
  buffer :: "byte list"
  header :: 'h

subsection \<open>Python slices and \<open>struct\<close>\<close>

text \<open>
  \<open>xs[lo:hi]\<close> with integer bounds: a negative bound counts from the end, and
  every bound is clamped to \<open>0..len(xs)\<close>.
\<close>

definition py_index :: "nat \<Rightarrow> int \<Rightarrow> nat" where
  "py_index n i = (if i < 0 then nat (int n + i) else min n (nat i))"

definition py_slice :: "'a list \<Rightarrow> int \<Rightarrow> int \<Rightarrow> 'a list" where
  "py_slice xs lo hi =
     (let a = py_index (length xs) lo; b = py_index (length xs) hi
      in take (b - a) (drop a xs))"

definition py_slice_to :: "'a list \<Rightarrow> int \<Rightarrow> 'a list" where
  "py_slice_to xs hi = take (py_index (length xs) hi) xs"

definition py_slice_from :: "'a list \<Rightarrow> int \<Rightarrow> 'a list" where
  "py_slice_from xs lo = drop (py_index (length xs) lo) xs"

text \<open>
  \<open>struct.pack\<close> with the formats \<open>B\<close> and \<open>>H\<close>: a value outside the range of
  the format raises \<open>struct.error\<close>.
\<close>

definition pack_B :: "int \<Rightarrow> error + byte list" where
  "pack_B v = (if 0 \<le> v \<and> v \<le> 255 then Inr [word_of_int v] else Inl StructError)"

definition pack_H :: "int \<Rightarrow> error + byte list" where
  "pack_H v =
     (if 0 \<le> v \<and> v \<le> 65535
      then Inr [word_of_int (v div 256), word_of_int (v mod 256)]
      else Inl StructError)"

text \<open>Concatenation of packed fields; the first field that fails raises.\<close>

fun pack_all :: "(error + byte list) list \<Rightarrow> error + byte list" where
  "pack_all [] = Inr []"
| "pack_all (Inl e # _) = Inl e"
| "pack_all (Inr bs # fs) =
     (case pack_all fs of Inl e \<Rightarrow> Inl e | Inr cs \<Rightarrow> Inr (bs @ cs))"

definition be16 :: "byte \<Rightarrow> byte \<Rightarrow> nat" where
  "be16 hi lo = unat hi * 256 + unat lo"

text \<open>\<open>struct.unpack(">HHHB", bs)\<close>: exactly seven bytes, else \<open>struct.error\<close>.\<close>

definition unpack_HHHB :: "byte list \<Rightarrow> error + (nat \<times> nat \<times> nat \<times> nat)" where
  "unpack_HHHB bs =
     (case bs of
        [a, b, c, d, e, f, g] \<Rightarrow> Inr (be16 a b, be16 c d, be16 e f, unat g)
      | _ \<Rightarrow> Inl StructError)"

subsection \<open>Big-endian fields, as the wire formats word them\<close>

text \<open>
  The two-byte big-endian encoding of a number below 65536 (\<open>TID(2 BE)\<close>,
  \<open>CRC16_be\<close>): the high byte first. The theorems on built packets are stated with it.
\<close>

definition be_bytes :: "nat \<Rightarrow> byte list" where
  "be_bytes n = [of_nat (n div 256), of_nat (n mod 256)]"

text \<open>The same number with the low byte first (\<open>CRC_LO | CRC_HI\<close>).\<close>

definition le_bytes :: "nat \<Rightarrow> byte list" where
  "le_bytes n = [of_nat (n mod 256), of_nat (n div 256)]"

section \<open>RTU framer\<close>

text \<open>
  The header dictionary of the RTU framer. \<open>populateHeader\<close> writes the key
  \<open>tid\<close>, \<open>advanceFrame\<close> builds a dictionary without it: \<open>None\<close> is the
  absent key.
\<close>

record rtu_header =
  rtu_uid :: byte
  rtu_tid :: "byte option"
  rtu_len :: nat
  rtu_crc :: "byte list"

type_synonym rtu_framer = "rtu_header framer"

text \<open>
  What the RTU framer consumes from code outside \<open>rtu_framer.py\<close>, taken as
  parameters:
  \<^item> \<open>computeCRC\<close> and \<open>checkCRC\<close> of \<open>pymodbus.utilities\<close>, the first a 16-bit
    value, the second a test of data against an integer;
  \<^item> \<open>function_codes\<close>, the keys of \<open>decoder.lookup\<close>;
  \<^item> \<open>calculateRtuFrameSize\<close> of the PDU class that \<open>decoder.lookupPduClass\<close> gives for
    a function code (\<open>None\<close> when it raises \<open>IndexError\<close> for want of bytes);
  \<^item> \<open>decode\<close> of the decoder (\<open>None\<close> as in Python);
  \<^item> \<open>validate_slave_id\<close> of the base framer, which reads the header, the slave list
    and the \<open>single\<close> flag;
  \<^item> \<open>resetFrame\<close> of the base framer, reached as \<open>super().resetFrame()\<close>.
\<close>

record 'a rtu_env =
  computeCRC :: "byte list \<Rightarrow> 16 word"
  checkCRC :: "byte list \<Rightarrow> int \<Rightarrow> bool"
  function_codes :: "int list"
  calculateRtuFrameSize :: "int \<Rightarrow> byte list \<Rightarrow> nat option"
  decode :: "byte list \<Rightarrow> 'a pdu_scheme option"
  validate_slave_id :: "rtu_header \<Rightarrow> int list \<Rightarrow> bool \<Rightarrow> bool"
  super_resetFrame :: "rtu_header framer \<Rightarrow> rtu_header framer"

definition get_expected_response_length :: "'a rtu_env \<Rightarrow> byte list \<Rightarrow> nat option" where
  "get_expected_response_length E data =
     (if length data < 2 then None
      else calculateRtuFrameSize E (uint (data ! 1)) data)"

text \<open>
  \<open>populateHeader\<close> mutates the header also on the paths that raise \<open>IndexError\<close>:
  the result is the header as left behind, and the size or \<open>None\<close> for the exception.
\<close>

definition populateHeader :: "'a rtu_env \<Rightarrow> byte list \<Rightarrow> rtu_header \<Rightarrow> rtu_header \<times> nat option" where
  "populateHeader E data h =
     (case data of
        [] \<Rightarrow> (h, None)
      | d0 # _ \<Rightarrow>
          (let h1 = h\<lparr>rtu_uid := d0, rtu_tid := Some d0\<rparr> in
           case get_expected_response_length E data of
             None \<Rightarrow> (h1, None)
           | Some sz \<Rightarrow>
               (let h2 = h1\<lparr>rtu_len := sz\<rparr> in
                if length data < sz then (h2, None)
                else (h2\<lparr>rtu_crc := py_slice data (int sz - 2) (int sz)\<rparr>, Some sz))))"

definition rtu_checkFrame :: "'a rtu_env \<Rightarrow> rtu_framer \<Rightarrow> bool \<times> rtu_framer" where
  "rtu_checkFrame E s =
     (case populateHeader E (buffer s) (header s) of
        (h, None) \<Rightarrow> (False, s\<lparr>header := h\<rparr>)
      | (h, Some _) \<Rightarrow>
          (let frame_size = rtu_len h;
               data = py_slice_to (buffer s) (int frame_size - 2);
               crc = rtu_crc h
           in if length crc < 2 then (False, s\<lparr>header := h\<rparr>)
              else (checkCRC E data (uint (crc ! 0) * 256 + uint (crc ! 1)),
                    s\<lparr>header := h\<rparr>)))"

definition rtu_advanceFrame :: "rtu_framer \<Rightarrow> rtu_framer" where
  "rtu_advanceFrame s =
     \<lparr>buffer = drop (rtu_len (header s)) (buffer s),
      header = \<lparr>rtu_uid = 0, rtu_tid = None, rtu_len = 0, rtu_crc = [0, 0]\<rparr>\<rparr>"

definition rtu_resetFrame :: "'a rtu_env \<Rightarrow> rtu_framer \<Rightarrow> rtu_framer" where
  "rtu_resetFrame E s =
     (let x = buffer s; s' = super_resetFrame E s
      in s'\<lparr>buffer := x\<rparr>)"

definition rtu_isFrameReady :: "'a rtu_env \<Rightarrow> rtu_framer \<Rightarrow> bool \<times> rtu_framer" where
  "rtu_isFrameReady E s =
     (let sz = rtu_len (header s) in
      if sz = 0 \<and> length (buffer s) > 1 then
        (case populateHeader E (buffer s) (header s) of
           (h, None) \<Rightarrow> (False, s\<lparr>header := h\<rparr>)
         | (h, Some sz') \<Rightarrow>
             (if sz' > 0 then length (buffer s) \<ge> sz' else False, s\<lparr>header := h\<rparr>))
      else (if sz > 0 then length (buffer s) \<ge> sz else False, s))"

definition rtu_getFrame :: "rtu_framer \<Rightarrow> byte list" where
  "rtu_getFrame s =
     (let start = 1; stop = int (rtu_len (header s)) - 2;
          buf = py_slice (buffer s) start stop
      in if stop > 0 then buf else [])"

definition rtu_populateResult :: "rtu_header \<Rightarrow> 'a pdu_scheme \<Rightarrow> error + 'a pdu_scheme" where
  "rtu_populateResult h result =
     (case rtu_tid h of
        None \<Rightarrow> Inl KeyError
      | Some t \<Rightarrow> Inr (result\<lparr>slave_id := rtu_uid h, transaction_id := ucast t\<rparr>))"

text \<open>
  The \<open>for\<close> loop of \<open>getFrameStart\<close> returns at the first index it does not skip:
  \<open>find\<close> over \<open>range(start, buf_len - 3)\<close>.
\<close>

definition frame_start_at :: "int list \<Rightarrow> int list \<Rightarrow> bool \<Rightarrow> byte list \<Rightarrow> nat \<Rightarrow> bool" where
  "frame_start_at fcs slaves broadcast buf i =
     (\<not> (\<not> broadcast \<and> uint (buf ! i) \<notin> set slaves) \<and>
      \<not> (uint (buf ! (i + 1)) \<notin> set fcs \<and> uint (buf ! (i + 1)) - 128 \<notin> set fcs))"

definition getFrameStart :: "'a rtu_env \<Rightarrow> int list \<Rightarrow> bool \<Rightarrow> bool \<Rightarrow> rtu_framer \<Rightarrow> bool \<times> rtu_framer" where
  "getFrameStart E slaves broadcast skip_cur_frame s =
     (let start = (if skip_cur_frame then 1 else 0);
          buf_len = length (buffer s)
      in if buf_len < 4 then (False, s)
         else
           (case find (frame_start_at (function_codes E) slaves broadcast (buffer s))
                   [start ..< buf_len - 3] of
              Some i \<Rightarrow> (True, if i \<noteq> 0 then s\<lparr>buffer := drop i (buffer s)\<rparr> else s)
            | None \<Rightarrow>
                (False, if buf_len > 3 then s\<lparr>buffer := py_slice_from (buffer s) (- 3)\<rparr> else s)))"

text \<open>
  \<open>_process\<close>: the new framer state and either the exception raised or the PDU handed
  to the callback.
\<close>

definition rtu_process :: "'a rtu_env \<Rightarrow> bool \<Rightarrow> rtu_framer \<Rightarrow> rtu_framer \<times> (error + 'a pdu_scheme)" where
  "rtu_process E err s =
     (let data = (if err then buffer s else rtu_getFrame s) in
      case decode E data of
        None \<Rightarrow> (s, Inl ModbusIOException)
      | Some result \<Rightarrow>
          if err \<and> uint (function_code result) < 128
          then (s, Inl InvalidMessageReceivedException)
          else (case rtu_populateResult (header s) result of
                  Inl e \<Rightarrow> (s, Inl e)
                | Inr r \<Rightarrow> (rtu_advanceFrame s, Inr r)))"

text \<open>
  One pass through the \<open>while\<close> loop of \<open>frameProcessIncomingPacket\<close>: the loop ends
  (the condition is false, or \<open>break\<close>), an exception leaves it, or it goes round again
  with a new \<open>skip_cur_frame\<close>, perhaps after a callback.
\<close>

datatype ('s, 'r) pass = Stop 's | Raise 's error | Again bool 's "'r option"

definition rtu_pass :: "'a rtu_env \<Rightarrow> bool \<Rightarrow> int list \<Rightarrow> bool \<Rightarrow> bool \<Rightarrow> rtu_framer
    \<Rightarrow> (rtu_framer, 'a pdu_scheme) pass" where
  "rtu_pass E single slave broadcast skip_cur_frame s =
     (case getFrameStart E slave broadcast skip_cur_frame s of
        (False, s1) \<Rightarrow> Stop s1
      | (True, s1) \<Rightarrow>
          (case rtu_isFrameReady E s1 of
             (False, s2) \<Rightarrow> Stop s2
           | (True, s2) \<Rightarrow>
               (case rtu_checkFrame E s2 of
                  (False, s3) \<Rightarrow> Again True (rtu_resetFrame E s3) None
                | (True, s3) \<Rightarrow>
                    if \<not> validate_slave_id E (header s3) slave single
                    then Again True (rtu_resetFrame E s3) None
                    else (case rtu_process E False s3 of
                            (s4, Inl e) \<Rightarrow> Raise s4 e
                          | (s4, Inr r) \<Rightarrow> Again skip_cur_frame s4 (Some r)))))"

text \<open>
  The \<open>while\<close> loop: the framer as left behind, the PDUs handed to the callback in
  order, and the exception that left the loop, if any.
\<close>

function rtu_loop :: "'a rtu_env \<Rightarrow> bool \<Rightarrow> int list \<Rightarrow> bool \<Rightarrow> bool \<Rightarrow> rtu_framer
    \<Rightarrow> 'a pdu_scheme list \<Rightarrow> rtu_framer \<times> 'a pdu_scheme list \<times> error option" where
  "rtu_loop E single slave broadcast skip_cur_frame s out =
     (case rtu_pass E single slave broadcast skip_cur_frame s of
        Stop s' \<Rightarrow> (s', out, None)
      | Raise s' e \<Rightarrow> (s', out, Some e)
      | Again skip' s' r \<Rightarrow>
          rtu_loop E single slave broadcast skip' s'
            (out @ (case r of None \<Rightarrow> [] | Some x \<Rightarrow> [x])))"
  by pat_completeness auto

text \<open>\<open>broadcast = not slave[0]\<close> raises \<open>IndexError\<close> on an empty list.\<close>

definition rtu_frameProcessIncomingPacket :: "'a rtu_env \<Rightarrow> bool \<Rightarrow> int list \<Rightarrow> rtu_framer
    \<Rightarrow> rtu_framer \<times> 'a pdu_scheme list \<times> error option" where
  "rtu_frameProcessIncomingPacket E single slave s =
     (case slave of
        [] \<Rightarrow> (s, [], Some IndexError)
      | s0 # _ \<Rightarrow> rtu_loop E single slave (s0 = 0) False s [])"

text \<open>
  \<open>buildPacket\<close> returns the packet and leaves the message mutated. The header format
  is \<open>>BB\<close>; \<open>encode\<close> is the message's own method.
\<close>

definition rtu_buildPacket :: "'a rtu_env \<Rightarrow> ('a pdu_scheme \<Rightarrow> byte list) \<Rightarrow> 'a pdu_scheme
    \<Rightarrow> error + (byte list \<times> 'a pdu_scheme)" where
  "rtu_buildPacket E encode message =
     (let data = encode message in
      case pack_all [pack_B (uint (slave_id message)), pack_B (uint (function_code message))] of
        Inl e \<Rightarrow> Inl e
      | Inr hdr \<Rightarrow>
          (let packet = hdr @ data in
           case pack_H (uint (computeCRC E packet)) of
             Inl e \<Rightarrow> Inl e
           | Inr c \<Rightarrow>
               Inr (packet @ c, message\<lparr>transaction_id := ucast (slave_id message)\<rparr>)))"

section \<open>Socket (MBAP) framer\<close>

record mbap_header =
  mbap_tid :: nat
  mbap_pid :: nat
  mbap_len :: nat
  mbap_uid :: nat

type_synonym socket_framer = "mbap_header framer"

abbreviation hsize :: nat where
  "hsize \<equiv> 7"

text \<open>
  An entry of the slave list is a slave id or, on a transport with a peer name, a pair
  of the peer's host and a slave id.
\<close>

datatype slave_key = Slave nat | PeerSlave string nat

text \<open>
  What the socket framer consumes from outside \<open>socket_framer.py\<close>: the decoder's
  \<open>decode\<close>, \<open>populateResult\<close> of the base framer (it reads the header and
  updates the result), \<open>resetFrame\<close> of the base framer, and the transport:
  \<open>None\<close>, or what \<open>get_extra_info('peername')\<close> gives, \<open>None\<close> or host and
  port.
\<close>

record 'a socket_env =
  sock_decode :: "byte list \<Rightarrow> 'a pdu_scheme option"
  populateResult :: "mbap_header \<Rightarrow> 'a pdu_scheme \<Rightarrow> 'a pdu_scheme"
  resetFrame :: "mbap_header framer \<Rightarrow> mbap_header framer"
  transport :: "(string \<times> nat) option option"

definition socket_validate_slave_id :: "'a socket_env \<Rightarrow> slave_key list \<Rightarrow> bool
    \<Rightarrow> socket_framer \<Rightarrow> bool" where
  "socket_validate_slave_id E slaves single s =
     (if single then True
      else if Slave 0 \<in> set slaves then True
      else (case transport E of
              None \<Rightarrow> Slave (mbap_uid (header s)) \<in> set slaves
            | Some None \<Rightarrow> Slave (mbap_uid (header s)) \<in> set slaves
            | Some (Some peer) \<Rightarrow> PeerSlave (fst peer) (mbap_uid (header s)) \<in> set slaves))"

definition socket_isFrameReady :: "socket_framer \<Rightarrow> bool" where
  "socket_isFrameReady s = (length (buffer s) > hsize)"

definition socket_advanceFrame :: "socket_framer \<Rightarrow> socket_framer" where
  "socket_advanceFrame s =
     (let flength = hsize + mbap_len (header s)
      in \<lparr>buffer = py_slice_from (buffer s) (int flength),
          header = \<lparr>mbap_tid = 0, mbap_pid = 0, mbap_len = 0, mbap_uid = 0\<rparr>\<rparr>)"

definition socket_getFrame :: "socket_framer \<Rightarrow> byte list" where
  "socket_getFrame s =
     (let flength = hsize + mbap_len (header s)
      in py_slice (buffer s) (int hsize) (int flength))"

definition socket_checkFrame :: "socket_framer \<Rightarrow> socket_framer \<times> (error + bool)" where
  "socket_checkFrame s =
     (if \<not> socket_isFrameReady s then (s, Inr False)
      else
        (case unpack_HHHB (py_slice (buffer s) 0 (int hsize)) of
           Inl e \<Rightarrow> (s, Inl e)
         | Inr (tid, pid, len, uid) \<Rightarrow>
             (let s1 = s\<lparr>header := \<lparr>mbap_tid = tid, mbap_pid = pid, mbap_len = len, mbap_uid = uid\<rparr>\<rparr>
              in if mbap_len (header s1) < 2 then (socket_advanceFrame s1, Inr False)
                 else if int (length (buffer s1)) - int hsize + 1 \<ge> int (mbap_len (header s1))
                 then (s1, Inr True)
                 else (s1, Inr False))))"

text \<open>
  \<open>_process\<close>: the framer as left behind, and the exception raised or what the callback
  received (\<open>None\<close> when it was not called). The expected transaction id \<open>tid\<close> is
  \<open>None\<close> or an integer; Python takes both \<open>None\<close> and \<open>0\<close> as false.
\<close>

definition socket_process :: "'a socket_env \<Rightarrow> int option \<Rightarrow> bool \<Rightarrow> socket_framer
    \<Rightarrow> socket_framer \<times> (error + 'a pdu_scheme option)" where
  "socket_process E tid err s =
     (let data = (if err then buffer s else socket_getFrame s) in
      case sock_decode E data of
        None \<Rightarrow> (resetFrame E s, Inl ModbusIOException)
      | Some result0 \<Rightarrow>
          if err \<and> uint (function_code result0) < 128
          then (s, Inl InvalidMessageReceivedException)
          else
            (let result = populateResult E (header s) result0;
                 s1 = socket_advanceFrame s
             in if (case tid of None \<Rightarrow> False | Some t \<Rightarrow> t \<noteq> 0)
                   \<and> tid \<noteq> Some (uint (transaction_id result))
                then (resetFrame E s1, Inr None)
                else (s1, Inr (Some result))))"

definition socket_frameProcessIncomingPacket :: "'a socket_env \<Rightarrow> bool \<Rightarrow> slave_key list
    \<Rightarrow> int option \<Rightarrow> socket_framer \<Rightarrow> socket_framer \<times> (error + 'a pdu_scheme option)" where
  "socket_frameProcessIncomingPacket E single slave tid s =
     (case socket_checkFrame s of
        (s1, Inl e) \<Rightarrow> (s1, Inl e)
      | (s1, Inr False) \<Rightarrow> (s1, Inr None)
      | (s1, Inr True) \<Rightarrow>
          if \<not> socket_validate_slave_id E slave single s1
          then (resetFrame E s1, Inr None)
          else socket_process E tid False s1)"

text \<open>\<open>buildPacket\<close> with the header format \<open>>HHHBB\<close>.\<close>

definition socket_buildPacket :: "('a pdu_scheme \<Rightarrow> byte list) \<Rightarrow> 'a pdu_scheme
    \<Rightarrow> error + byte list" where
  "socket_buildPacket encode message =
     (let data = encode message in
      case pack_all
             [pack_H (uint (transaction_id message)),
              pack_H (uint (protocol_id message)),
              pack_H (int (length data) + 2),
              pack_B (uint (slave_id message)),
              pack_B (uint (function_code message))] of
        Inl e \<Rightarrow> Inl e
      | Inr packet \<Rightarrow> Inr (packet @ data))"

section \<open>Fixtures\<close>

text \<open>
  Concrete collaborators on which the theorems below are instantiated: the CRC
  functions of \<open>pymodbus.utilities\<close>, a decoder that knows function code 3 (a response
  whose byte count is its third byte), the slave check of the base framer (any slave
  passes when the list holds 0 or 255), a \<open>populateResult\<close> that copies the MBAP header
  into the result, and a base \<open>resetFrame\<close> that empties the buffer and zeroes the
  header.
\<close>

definition crc_bit :: "16 word \<Rightarrow> 16 word" where
  "crc_bit c = (if bit c 0 then drop_bit 1 c XOR 0xA001 else drop_bit 1 c)"

definition crc_byte :: "16 word \<Rightarrow> byte \<Rightarrow> 16 word" where
  "crc_byte c b =
     crc_bit (crc_bit (crc_bit (crc_bit (crc_bit (crc_bit (crc_bit (crc_bit (c XOR ucast b))))))))"

definition crc16 :: "byte list \<Rightarrow> 16 word" where
  \<comment> \<open>CRC-16/Modbus: polynomial 0xA001 (reflected 0x8005), initial value 0xFFFF, no
      final XOR, byte-wise.\<close>
  "crc16 data = foldl crc_byte 0xFFFF data"

definition utilities_computeCRC :: "byte list \<Rightarrow> 16 word" where
  \<comment> \<open>Modelled from the spec: \<open>computeCRC\<close> of \<open>pymodbus.utilities\<close> is not part of the
      sources at hand. It computes the CRC-16/Modbus of the data. The low byte of the
      CRC is transmitted first on the wire (the frame is
      \<open>UID | FC | DATA | CRC_LO | CRC_HI\<close>), and \<open>buildPacket\<close> packs the value returned
      high byte first: the value returned is the CRC with its two bytes swapped.\<close>
  "utilities_computeCRC data =
     (let crc = unat (crc16 data) in of_nat ((crc mod 256) * 256 + crc div 256))"

definition utilities_checkCRC :: "byte list \<Rightarrow> int \<Rightarrow> bool" where
  \<comment> \<open>Modelled from the spec: \<open>checkCRC\<close> of \<open>pymodbus.utilities\<close> is not part of the
      sources at hand. It verifies the CRC computed over the data against the value read
      from the frame.\<close>
  "utilities_checkCRC data check = (uint (utilities_computeCRC data) = check)"

definition demo_decode :: "byte list \<Rightarrow> pdu option" where
  "demo_decode data =
     (case data of
        [] \<Rightarrow> None
      | fc # _ \<Rightarrow> Some \<lparr>function_code = fc, slave_id = 0, transaction_id = 0, protocol_id = 0\<rparr>)"

definition rtu_zero_header :: rtu_header where
  "rtu_zero_header = \<lparr>rtu_uid = 0, rtu_tid = Some 0, rtu_len = 0, rtu_crc = [0, 0]\<rparr>"

definition mbap_zero_header :: mbap_header where
  "mbap_zero_header = \<lparr>mbap_tid = 0, mbap_pid = 0, mbap_len = 0, mbap_uid = 0\<rparr>"

definition demo_rtu_env :: "unit rtu_env" where
  "demo_rtu_env =
     \<lparr>computeCRC = utilities_computeCRC,
      checkCRC = utilities_checkCRC,
      function_codes = [3],
      calculateRtuFrameSize = (\<lambda>fc data. if length data < 3 then None else Some (unat (data ! 2) + 5)),
      decode = demo_decode,
      validate_slave_id =
        (\<lambda>h slaves single.
           single \<or> 0 \<in> set slaves \<or> 255 \<in> set slaves \<or> uint (rtu_uid h) \<in> set slaves),
      super_resetFrame = (\<lambda>s. \<lparr>buffer = [], header = rtu_zero_header\<rparr>)\<rparr>"

definition demo_socket_env :: "unit socket_env" where
  "demo_socket_env =
     \<lparr>sock_decode = demo_decode,
      populateResult = (\<lambda>h r. r\<lparr>transaction_id := of_nat (mbap_tid h),
                                  protocol_id := of_nat (mbap_pid h),
                                  slave_id := of_nat (mbap_uid h)\<rparr>),
      resetFrame = (\<lambda>s. \<lparr>buffer = [], header = mbap_zero_header\<rparr>),
      transport = None\<rparr>"

text \<open>A request on the socket carrier: tid 1, pid 0, len 6, uid 1, fc 3 and four bytes.\<close>

definition mbap_request :: "byte list" where
  "mbap_request = [0, 1, 0, 0, 0, 6, 1, 3, 0, 0, 0, 10]"

definition mbap_request2 :: "byte list" where
  "mbap_request2 = [0, 2, 0, 0, 0, 6, 1, 3, 0, 0, 0, 11]"

definition socket_start :: "byte list \<Rightarrow> socket_framer" where
  "socket_start bs = \<lparr>buffer = bs, header = mbap_zero_header\<rparr>"

text \<open>
  An RTU response of slave 1 to function code 3 with two data bytes. The CRC-16/Modbus
  of its first five bytes is 0x4338; its last two bytes are that CRC with the low byte
  first. \<open>rtu_bad_crc\<close> is the same frame with the CRC bytes zeroed.
\<close>

definition rtu_response :: "byte list" where
  "rtu_response = [1, 3, 2, 0, 10, 0x38, 0x43]"

definition rtu_bad_crc :: "byte list" where
  "rtu_bad_crc = [1, 3, 2, 0, 10, 0, 0]"

definition rtu_start :: "byte list \<Rightarrow> rtu_framer" where
  "rtu_start bs = \<lparr>buffer = bs, header = rtu_zero_header\<rparr>"

text \<open>The header of \<open>rtu_response\<close> once \<open>populateHeader\<close> has read it.\<close>

definition rtu_response_header :: "byte list \<Rightarrow> rtu_header" where
  "rtu_response_header crc = \<lparr>rtu_uid = 1, rtu_tid = Some 1, rtu_len = 7, rtu_crc = crc\<rparr>"

text \<open>The same RTU collaborators with a decoder that decodes nothing.\<close>

definition deaf_rtu_env :: "unit rtu_env" where
  "deaf_rtu_env = demo_rtu_env\<lparr>decode := (\<lambda>data. None)\<rparr>"

text \<open>
  A header on the socket carrier whose length field is 1: tid 1, pid 0, len 1, uid 1.
\<close>

definition mbap_short_header :: "byte list" where
  "mbap_short_header = [0, 1, 0, 0, 0, 1, 1]"

text \<open>The response \<open>rtu_response\<close> behind two bytes \<open>FF FF\<close> of noise.\<close>

definition rtu_noisy :: "byte list" where
  "rtu_noisy = [255, 255] @ rtu_response"

section \<open>Slices on natural bounds\<close>

lemma py_slice_from_nat: "py_slice_from xs (int n) = drop n xs"
  by (cases "n \<le> length xs") (simp_all add: py_slice_from_def py_index_def min_def)

lemma py_slice_to_nat: "py_slice_to xs (int n) = take n xs"
  by (cases "n \<le> length xs") (simp_all add: py_slice_to_def py_index_def min_def)

lemma py_slice_nat: "py_slice xs (int a) (int b) = take (b - a) (drop a xs)"
proof (cases "a \<le> length xs")
  case True
  show ?thesis
  proof (cases "b \<le> length xs")
    case b: True
    with True show ?thesis by (simp add: py_slice_def py_index_def Let_def min_def)
  next
    case False
    with True show ?thesis by (simp add: py_slice_def py_index_def Let_def min_def)
  qed
next
  case False
  then show ?thesis by (simp add: py_slice_def py_index_def Let_def min_def)
qed

lemma py_slice_short: "sz < 2 \<Longrightarrow> length (py_slice data (int sz - 2) (int sz)) < 2"
  by (auto simp: py_slice_def py_index_def Let_def)

section \<open>The RTU receive loop terminates\<close>

lemma populateHeader_Some:
  "populateHeader E data h = (h', Some sz) \<Longrightarrow>
     rtu_len h' = sz \<and> sz \<le> length data \<and> rtu_crc h' = py_slice data (int sz - 2) (int sz)
     \<and> data \<noteq> [] \<and> rtu_uid h' = hd data \<and> rtu_tid h' = Some (hd data)"
  by (auto simp: populateHeader_def Let_def split: list.splits option.splits if_splits)

lemma rtu_checkFrame_buffer: "rtu_checkFrame E s = (ok, s') \<Longrightarrow> buffer s' = buffer s"
  by (auto simp: rtu_checkFrame_def Let_def split: prod.splits option.splits if_splits)

lemma rtu_checkFrame_True:
  assumes "rtu_checkFrame E s = (True, s')"
  shows "2 \<le> rtu_len (header s') \<and> rtu_len (header s') \<le> length (buffer s)
         \<and> buffer s \<noteq> [] \<and> rtu_uid (header s') = hd (buffer s)
         \<and> rtu_tid (header s') = Some (hd (buffer s))"
proof -
  from assms obtain h sz where p: "populateHeader E (buffer s) (header s) = (h, Some sz)"
    and l: "\<not> length (rtu_crc h) < 2" and s': "s' = s\<lparr>header := h\<rparr>"
    by (auto simp: rtu_checkFrame_def Let_def split: prod.splits option.splits if_splits)
  from populateHeader_Some[OF p] l py_slice_short[of sz "buffer s"] s' show ?thesis
    by (cases "sz < 2") auto
qed

lemma rtu_isFrameReady_buffer: "rtu_isFrameReady E s = (ok, s') \<Longrightarrow> buffer s' = buffer s"
  by (auto simp: rtu_isFrameReady_def Let_def split: prod.splits option.splits if_splits)

lemma getFrameStart_True:
  assumes "getFrameStart E slaves b skip s = (True, s')"
  shows "\<exists>i. (if skip then 1 else 0) \<le> i \<and> i + 3 < length (buffer s) \<and>
           frame_start_at (function_codes E) slaves b (buffer s) i \<and>
           s' = s\<lparr>buffer := drop i (buffer s)\<rparr>"
proof -
  let ?start = "if skip then 1 else 0::nat"
  from assms obtain i where
    f: "find (frame_start_at (function_codes E) slaves b (buffer s))
          [?start ..< length (buffer s) - 3] = Some i"
    and s': "s' = (if i \<noteq> 0 then s\<lparr>buffer := drop i (buffer s)\<rparr> else s)"
    by (auto simp: getFrameStart_def Let_def split: option.splits if_splits)
  from f have "i \<in> set [?start ..< length (buffer s) - 3]"
    and c: "frame_start_at (function_codes E) slaves b (buffer s) i"
    by (auto simp: find_Some_iff)
  then have r: "?start \<le> i" "i + 3 < length (buffer s)" by auto
  from s' have "s' = s\<lparr>buffer := drop i (buffer s)\<rparr>" by (cases "i = 0") auto
  with r c show ?thesis by blast
qed

lemma rtu_process_Inr:
  "rtu_process E err s = (s', Inr r) \<Longrightarrow> s' = rtu_advanceFrame s"
  by (auto simp: rtu_process_def Let_def split: option.splits if_splits sum.splits)

lemma rtu_resetFrame_buffer: "buffer (rtu_resetFrame E s) = buffer s"
  by (simp add: rtu_resetFrame_def Let_def)

lemma rtu_pass_Again:
  assumes "rtu_pass E single slave b skip s = Again skip' s' r"
  shows "2 * length (buffer s') + (if skip' then 0 else 1)
           < 2 * length (buffer s) + (if skip then 0 else 1)"
proof -
  from assms obtain s1 s2 ok s3 where
    g: "getFrameStart E slave b skip s = (True, s1)"
    and r: "rtu_isFrameReady E s1 = (True, s2)"
    and c: "rtu_checkFrame E s2 = (ok, s3)"
    by (auto simp: rtu_pass_def split: prod.splits bool.splits if_splits)
  from getFrameStart_True[OF g] obtain i where
    i: "(if skip then 1 else 0) \<le> i" "i + 3 < length (buffer s)"
    and s1: "s1 = s\<lparr>buffer := drop i (buffer s)\<rparr>" by blast
  have b3: "buffer s3 = buffer s1"
    using rtu_isFrameReady_buffer[OF r] rtu_checkFrame_buffer[OF c] by simp
  have l3: "length (buffer s3) = length (buffer s) - i" using b3 s1 by simp
  show ?thesis
  proof (cases "skip' \<and> s' = rtu_resetFrame E s3")
    case True
    then show ?thesis using l3 i by (auto simp: rtu_resetFrame_buffer split: if_splits)
  next
    case False
    with assms g r c have ok: "ok" and sk: "skip' = skip"
      and p: "\<exists>x. rtu_process E False s3 = (s', Inr x)"
      by (auto simp: rtu_pass_def split: prod.splits bool.splits if_splits sum.splits)
    from p rtu_process_Inr have "s' = rtu_advanceFrame s3" by blast
    moreover from ok c rtu_checkFrame_True[of E s2 s3]
    have "2 \<le> rtu_len (header s3)" by simp
    ultimately show ?thesis using l3 i sk by (auto simp: rtu_advanceFrame_def)
  qed
qed

termination rtu_loop
  by (relation "measure (\<lambda>(E, single, slave, broadcast, skip, s, out).
                   2 * length (buffer s) + (if skip then 0 else 1))")
     (auto dest: rtu_pass_Again)

declare rtu_loop.simps [simp del]

section \<open>Packing\<close>

lemma be16_be_bytes: "n < 65536 \<Longrightarrow> be16 (be_bytes n ! 0) (be_bytes n ! 1) = n"
  by (simp add: be16_def be_bytes_def unat_of_nat take_bit_eq_mod)

lemma pack_B_byte: "pack_B (uint (b :: byte)) = Inr [b]"
proof -
  have "uint b < 256" using uint_bounded[of b] by simp
  then show ?thesis by (simp add: pack_B_def)
qed

lemma pack_H_nat: "n \<le> 65535 \<Longrightarrow> pack_H (int n) = Inr (be_bytes n)"
proof -
  have d: "int n div 256 = int (n div 256)" and m: "int n mod 256 = int (n mod 256)"
    by (simp_all add: zdiv_int zmod_int)
  assume "n \<le> 65535"
  then show ?thesis
    unfolding pack_H_def be_bytes_def d m by simp
qed

lemma pack_H_word: "pack_H (uint (w :: 16 word)) = Inr (be_bytes (unat w))"
proof -
  have "unat w < 65536" using unsigned_less[of w, where 'a=nat] by simp
  then have "pack_H (int (unat w)) = Inr (be_bytes (unat w))" by (intro pack_H_nat) simp
  then show ?thesis by simp
qed

section \<open>Properties of the socket framer\<close>

lemmas socket_eval = socket_checkFrame_def socket_isFrameReady_def socket_advanceFrame_def
  socket_getFrame_def py_slice_def py_slice_from_def py_index_def unpack_HHHB_def be16_def Let_def
  socket_start_def mbap_zero_header_def

lemma socket_checkFrame_request:
  "socket_checkFrame (socket_start mbap_request) =
     (\<lparr>buffer = mbap_request,
        header = \<lparr>mbap_tid = 1, mbap_pid = 0, mbap_len = 6, mbap_uid = 1\<rparr>\<rparr>, Inr True)"
  by (simp add: socket_eval mbap_request_def)

lemma socket_getFrame_request:
  "socket_getFrame \<lparr>buffer = mbap_request,
        header = \<lparr>mbap_tid = 1, mbap_pid = 0, mbap_len = 6, mbap_uid = 1\<rparr>\<rparr> = [3, 0, 0, 0, 10]"
  by (simp add: socket_eval mbap_request_def)

lemma socket_advanceFrame_request:
  "socket_advanceFrame \<lparr>buffer = mbap_request,
        header = \<lparr>mbap_tid = 1, mbap_pid = 0, mbap_len = 6, mbap_uid = 1\<rparr>\<rparr> = socket_start []"
  by (simp add: socket_eval mbap_request_def)

subsection \<open>The packet built for the socket carrier\<close>

text \<open>
  C7, as amended. For every message whose encoded data is at most 65533 bytes long,
  so that \<open>len(data) + 2\<close> fits the two-byte length field, \<open>buildPacket\<close> of the
  socket framer returns the seven-byte big-endian header (transaction id, protocol id,
  \<open>len(data) + 2\<close>, each on two bytes, then the slave id on one), then the function
  code byte, then the encoded data.
\<close>

theorem socket_buildPacket_layout:
  assumes "length (encode m) + 2 \<le> 65535"
  shows "socket_buildPacket encode m =
           Inr (be_bytes (unat (transaction_id m)) @ be_bytes (unat (protocol_id m)) @
                be_bytes (length (encode m) + 2) @ [slave_id m, function_code m] @ encode m)"
proof -
  have "pack_H (int (length (encode m)) + 2) = Inr (be_bytes (length (encode m) + 2))"
    using pack_H_nat[OF assms] by (simp add: add.commute)
  then show ?thesis
    by (simp add: socket_buildPacket_def Let_def pack_H_word pack_B_byte)
qed

text \<open>
  The theorem on a message with tid 1, pid 0, slave 1, function code 3 and the data
  \<open>00 00 00 0A\<close>: the packet is \<open>00 01 00 00 00 06 01 03 00 00 00 0A\<close>.
\<close>

theorem socket_buildPacket_layout_witness:
  "length [0, 0, 0, 10 :: byte] + 2 \<le> 65535 \<and>
   socket_buildPacket (\<lambda>m. [0, 0, 0, 10])
     \<lparr>function_code = 3, slave_id = 1, transaction_id = 1, protocol_id = 0\<rparr> =
   Inr mbap_request"
proof -
  have h: "length [0, 0, 0, 10 :: byte] + 2 \<le> 65535" by simp
  show ?thesis
    using socket_buildPacket_layout[of "\<lambda>m. [0, 0, 0, 10]"
        "\<lparr>function_code = 3, slave_id = 1, transaction_id = 1, protocol_id = 0\<rparr>", OF h]
    by (simp add: be_bytes_def mbap_request_def)
qed

text \<open>
  C7 as stated fails: for a message whose encoded data is 65534 bytes long the length
  \<open>65536\<close> does not fit the format \<open>H\<close>, \<open>struct.pack\<close> raises and no packet
  is built.
\<close>

theorem socket_buildPacket_too_long:
  "socket_buildPacket (\<lambda>m. replicate 65534 0)
     \<lparr>function_code = 3, slave_id = 1, transaction_id = 1, protocol_id = 0\<rparr> = Inl StructError"
  by (simp add: socket_buildPacket_def Let_def pack_H_word pack_B_byte pack_H_def)

subsection \<open>The expected transaction id\<close>

text \<open>
  C10. When the expected transaction id given to \<open>frameProcessIncomingPacket\<close> of
  the socket framer is 0, the filter on the transaction id is off: a frame that passes
  \<open>checkFrame\<close> and the slave check and that the decoder decodes is handed to the
  callback and the frame is advanced, whatever the transaction id of the result.
\<close>

theorem socket_tid_zero_delivers:
  assumes "socket_checkFrame s = (s1, Inr True)"
    and "socket_validate_slave_id E slave single s1"
    and "sock_decode E (socket_getFrame s1) = Some r"
  shows "socket_frameProcessIncomingPacket E single slave (Some 0) s =
           (socket_advanceFrame s1, Inr (Some (populateResult E (header s1) r)))"
  using assms by (simp add: socket_frameProcessIncomingPacket_def socket_process_def Let_def)

text \<open>
  The theorem on the request with transaction id 1: the callback receives a result
  whose transaction id is 1, not the expected 0.
\<close>

theorem socket_tid_zero_delivers_witness:
  "socket_frameProcessIncomingPacket demo_socket_env False [Slave 1] (Some 0)
     (socket_start mbap_request) =
   (socket_start [],
    Inr (Some \<lparr>function_code = 3, slave_id = 1, transaction_id = 1, protocol_id = 0\<rparr>))"
proof -
  let ?s1 = "\<lparr>buffer = mbap_request,
        header = \<lparr>mbap_tid = 1, mbap_pid = 0, mbap_len = 6, mbap_uid = 1\<rparr>\<rparr>"
  have v: "socket_validate_slave_id demo_socket_env [Slave 1] False ?s1"
    by (simp add: socket_validate_slave_id_def demo_socket_env_def)
  have d: "sock_decode demo_socket_env (socket_getFrame ?s1) =
             Some \<lparr>function_code = 3, slave_id = 0, transaction_id = 0, protocol_id = 0\<rparr>"
    unfolding socket_getFrame_request by (simp add: demo_socket_env_def demo_decode_def)
  show ?thesis
    using socket_tid_zero_delivers[OF socket_checkFrame_request v d]
    unfolding socket_advanceFrame_request by (simp add: demo_socket_env_def)
qed

text \<open>
  C8, as amended. When \<open>frameProcessIncomingPacket\<close> of the socket framer is given
  an expected transaction id other than 0 and the transaction id of the decoded result
  differs from it, the frame is dropped (the frame is advanced and \<open>resetFrame\<close> is
  applied), the callback is not called and no exception is raised.
\<close>

theorem socket_tid_mismatch_drops:
  assumes "socket_checkFrame s = (s1, Inr True)"
    and "socket_validate_slave_id E slave single s1"
    and "sock_decode E (socket_getFrame s1) = Some r"
    and "t \<noteq> 0"
    and "t \<noteq> uint (transaction_id (populateResult E (header s1) r))"
  shows "socket_frameProcessIncomingPacket E single slave (Some t) s =
           (resetFrame E (socket_advanceFrame s1), Inr None)"
  using assms
  by (simp add: socket_frameProcessIncomingPacket_def socket_process_def Let_def)

text \<open>
  The theorem on the request with transaction id 1 when 2 is expected; the base
  \<open>resetFrame\<close> here empties the buffer.
\<close>

theorem socket_tid_mismatch_drops_witness:
  "(2::int) \<noteq> 0 \<and>
   socket_frameProcessIncomingPacket demo_socket_env False [Slave 1] (Some 2)
     (socket_start mbap_request) = (socket_start [], Inr None)"
proof -
  let ?s1 = "\<lparr>buffer = mbap_request,
        header = \<lparr>mbap_tid = 1, mbap_pid = 0, mbap_len = 6, mbap_uid = 1\<rparr>\<rparr>"
  let ?r = "\<lparr>function_code = 3, slave_id = 0, transaction_id = 0, protocol_id = 0\<rparr>"
  have v: "socket_validate_slave_id demo_socket_env [Slave 1] False ?s1"
    by (simp add: socket_validate_slave_id_def demo_socket_env_def)
  have d: "sock_decode demo_socket_env (socket_getFrame ?s1) = Some ?r"
    unfolding socket_getFrame_request by (simp add: demo_socket_env_def demo_decode_def)
  have n: "(2::int) \<noteq> 0" by simp
  have m: "(2::int) \<noteq> uint (transaction_id (populateResult demo_socket_env (header ?s1) ?r))"
    by (simp add: demo_socket_env_def)
  show ?thesis
    using socket_tid_mismatch_drops[OF socket_checkFrame_request v d n m]
    by (simp add: demo_socket_env_def socket_start_def)
qed

text \<open>
  C8 as stated fails when the expected transaction id given is 0: the result's
  transaction id 2 differs from it, and the callback is called all the same.
\<close>

theorem socket_tid_zero_supplied_counterexample:
  "socket_frameProcessIncomingPacket demo_socket_env True [] (Some 0)
     (socket_start mbap_request2) =
   (socket_start [],
    Inr (Some \<lparr>function_code = 3, slave_id = 1, transaction_id = 2, protocol_id = 0\<rparr>))
   \<and> (0::int) \<noteq> uint (2 :: 16 word)"
  by (simp add: socket_frameProcessIncomingPacket_def socket_process_def socket_eval
      mbap_request2_def socket_validate_slave_id_def demo_socket_env_def demo_decode_def)

section \<open>Properties of the RTU framer\<close>

lemma crc16_response: "crc16 [1, 3, 2, 0, 10] = 0x4338"
  by (simp add: crc16_def crc_byte_def crc_bit_def)

lemma computeCRC_response: "utilities_computeCRC [1, 3, 2, 0, 10] = 0x3843"
  by (simp add: utilities_computeCRC_def crc16_response)

lemma rtu_loop_Stop:
  "rtu_pass E single slave b skip s = Stop s' \<Longrightarrow>
     rtu_loop E single slave b skip s out = (s', out, None)"
  by (subst rtu_loop.simps) simp

lemma rtu_loop_Raise:
  "rtu_pass E single slave b skip s = Raise s' e \<Longrightarrow>
     rtu_loop E single slave b skip s out = (s', out, Some e)"
  by (subst rtu_loop.simps) simp

lemma rtu_loop_Again:
  "rtu_pass E single slave b skip s = Again skip' s' r \<Longrightarrow>
     rtu_loop E single slave b skip s out =
       rtu_loop E single slave b skip' s' (out @ (case r of None \<Rightarrow> [] | Some x \<Rightarrow> [x]))"
  by (subst rtu_loop.simps) simp

lemmas rtu_eval = getFrameStart_def frame_start_at_def rtu_isFrameReady_def populateHeader_def
  get_expected_response_length_def rtu_checkFrame_def py_slice_def py_slice_to_def
  py_slice_from_def py_index_def Let_def rtu_start_def rtu_zero_header_def demo_rtu_env_def
  rtu_response_header_def rtu_resetFrame_def utilities_checkCRC_def

lemma gfs_response:
  "getFrameStart demo_rtu_env [1] False False (rtu_start rtu_response) = (True, rtu_start rtu_response)"
  by (simp add: rtu_eval rtu_response_def)

lemma ready_response:
  "rtu_isFrameReady demo_rtu_env (rtu_start rtu_response) =
     (True, \<lparr>buffer = rtu_response, header = rtu_response_header [0x38, 0x43]\<rparr>)"
  by (simp add: rtu_eval rtu_response_def)

lemma check_response:
  "rtu_checkFrame demo_rtu_env \<lparr>buffer = rtu_response, header = rtu_response_header [0x38, 0x43]\<rparr> =
     (True, \<lparr>buffer = rtu_response, header = rtu_response_header [0x38, 0x43]\<rparr>)"
  by (simp add: rtu_eval rtu_response_def computeCRC_response)

lemma gfs_bad:
  "getFrameStart demo_rtu_env [1] False False (rtu_start rtu_bad_crc) = (True, rtu_start rtu_bad_crc)"
  by (simp add: rtu_eval rtu_bad_crc_def)

lemma ready_bad:
  "rtu_isFrameReady demo_rtu_env (rtu_start rtu_bad_crc) =
     (True, \<lparr>buffer = rtu_bad_crc, header = rtu_response_header [0, 0]\<rparr>)"
  by (simp add: rtu_eval rtu_bad_crc_def)

lemma check_bad:
  "rtu_checkFrame demo_rtu_env \<lparr>buffer = rtu_bad_crc, header = rtu_response_header [0, 0]\<rparr> =
     (False, \<lparr>buffer = rtu_bad_crc, header = rtu_response_header [0, 0]\<rparr>)"
  by (simp add: rtu_eval rtu_bad_crc_def computeCRC_response)

lemma gfs_bad_skip:
  "getFrameStart demo_rtu_env [1] False True (rtu_start rtu_bad_crc) = (False, rtu_start [10, 0, 0])"
  by (simp add: rtu_eval rtu_bad_crc_def)

subsection \<open>A frame that fails the check\<close>

text \<open>
  C4. When, in \<open>frameProcessIncomingPacket\<close> of the RTU framer, a candidate frame
  found by \<open>getFrameStart\<close> and ready fails \<open>checkFrame\<close> (its CRC does not
  match), that pass of the loop calls no callback and raises nothing: the loop goes on
  with the same output, \<open>skip_cur_frame\<close> set and the buffer still at the candidate's
  start. The next scan then either accepts a candidate at least one byte further on, or
  finds none and the loop ends without an error.
\<close>

theorem rtu_crc_failure_resyncs:
  assumes g: "getFrameStart E slave b skip s = (True, s1)"
    and r: "rtu_isFrameReady E s1 = (True, s2)"
    and c: "rtu_checkFrame E s2 = (False, s3)"
  shows "rtu_pass E single slave b skip s = Again True (rtu_resetFrame E s3) None
       \<and> rtu_loop E single slave b skip s out =
           rtu_loop E single slave b True (rtu_resetFrame E s3) out
       \<and> buffer (rtu_resetFrame E s3) = buffer s1
       \<and> (\<forall>s4. getFrameStart E slave b True (rtu_resetFrame E s3) = (True, s4) \<longrightarrow>
             (\<exists>i\<ge>1. buffer s4 = drop i (buffer s1)))
       \<and> (\<forall>s4. getFrameStart E slave b True (rtu_resetFrame E s3) = (False, s4) \<longrightarrow>
             rtu_loop E single slave b True (rtu_resetFrame E s3) out = (s4, out, None))"
proof -
  have p: "rtu_pass E single slave b skip s = Again True (rtu_resetFrame E s3) None"
    using g r c by (simp add: rtu_pass_def)
  have l: "rtu_loop E single slave b skip s out =
             rtu_loop E single slave b True (rtu_resetFrame E s3) out"
    using rtu_loop_Again[OF p] by simp
  have bf: "buffer (rtu_resetFrame E s3) = buffer s1"
    using rtu_isFrameReady_buffer[OF r] rtu_checkFrame_buffer[OF c]
    by (simp add: rtu_resetFrame_buffer)
  have nx: "\<exists>i\<ge>1. buffer s4 = drop i (buffer s1)"
    if "getFrameStart E slave b True (rtu_resetFrame E s3) = (True, s4)" for s4
  proof -
    from getFrameStart_True[OF that] obtain i where "1 \<le> i"
      and "s4 = (rtu_resetFrame E s3)\<lparr>buffer := drop i (buffer (rtu_resetFrame E s3))\<rparr>"
      by auto
    then show ?thesis using bf by auto
  qed
  have st: "rtu_loop E single slave b True (rtu_resetFrame E s3) out = (s4, out, None)"
    if "getFrameStart E slave b True (rtu_resetFrame E s3) = (False, s4)" for s4
  proof -
    have "rtu_pass E single slave b True (rtu_resetFrame E s3) = Stop s4"
      using that by (simp add: rtu_pass_def)
    then show ?thesis by (rule rtu_loop_Stop)
  qed
  from p l bf nx st show ?thesis by blast
qed

text \<open>
  The theorem on \<open>01 03 02 00 0A 00 00\<close>, a frame with a wrong CRC: nothing is
  delivered, nothing is raised, and the buffer keeps its last three bytes.
\<close>

theorem rtu_crc_failure_resyncs_witness:
  "rtu_frameProcessIncomingPacket demo_rtu_env False [1] (rtu_start rtu_bad_crc) =
     (rtu_start [10, 0, 0], [], None)"
proof -
  let ?s2 = "\<lparr>buffer = rtu_bad_crc, header = rtu_response_header [0, 0]\<rparr>"
  have rs: "rtu_resetFrame demo_rtu_env ?s2 = rtu_start rtu_bad_crc"
    by (simp add: rtu_resetFrame_def demo_rtu_env_def rtu_start_def)
  note t = rtu_crc_failure_resyncs[OF gfs_bad ready_bad check_bad, of False "[]", unfolded rs]
  from t have "rtu_loop demo_rtu_env False [1] False False (rtu_start rtu_bad_crc) [] =
     rtu_loop demo_rtu_env False [1] False True (rtu_start rtu_bad_crc) []" by blast
  moreover from t gfs_bad_skip
  have "rtu_loop demo_rtu_env False [1] False True (rtu_start rtu_bad_crc) [] =
          (rtu_start [10, 0, 0], [], None)" by blast
  ultimately show ?thesis by (simp add: rtu_frameProcessIncomingPacket_def)
qed

subsection \<open>The scan for a frame start\<close>

lemma frame_start_at_iff:
  "frame_start_at fcs slaves b buf i \<longleftrightarrow>
     (b \<or> uint (buf ! i) \<in> set slaves) \<and>
     (uint (buf ! (i + 1)) \<in> set fcs \<or> uint (buf ! (i + 1)) - 128 \<in> set fcs)"
  by (auto simp: frame_start_at_def)

lemma find_upt_first:
  assumes "lo \<le> i" "i < hi" "P i" "\<forall>j. lo \<le> j \<and> j < i \<longrightarrow> \<not> P j"
  shows "find P [lo ..< hi] = Some i"
proof -
  have "[lo ..< hi] ! (i - lo) = i" "i - lo < length [lo ..< hi]" using assms by auto
  moreover have "\<forall>j < i - lo. \<not> P ([lo ..< hi] ! j)" using assms by auto
  ultimately show ?thesis using assms(3) unfolding find_Some_iff by metis
qed

lemma find_upt_none:
  assumes "\<forall>j. lo \<le> j \<and> j < hi \<longrightarrow> \<not> P j"
  shows "find P [lo ..< hi] = None"
  using assms by (auto simp: find_None_iff)

text \<open>
  C5, as amended. \<open>getFrameStart\<close> scans the indices \<open>i\<close> from \<open>start\<close>
  (1 if the previous frame was rejected, else 0) that leave at least four bytes, that is
  \<open>i + 3 < len(buffer)\<close>. A candidate is an index where broadcast holds or
  \<open>buffer[i]\<close> is a valid slave, and \<open>buffer[i+1]\<close> or \<open>buffer[i+1] - 0x80\<close>
  is a known function code. At the smallest candidate \<open>i\<close> of that range the scan
  discards exactly the bytes before \<open>i\<close> and reports success. With no candidate in
  that range and more than three bytes in the buffer, it keeps only the last three
  bytes and reports failure. A buffer of at most three bytes is left as it is, with
  failure reported.
\<close>

theorem getFrameStart_scan:
  fixes E :: "'a rtu_env" and s :: rtu_framer and skip b :: bool and slaves :: "int list"
  defines "buf \<equiv> buffer s"
  defines "start \<equiv> (if skip then 1 else 0 :: nat)"
  defines "cand \<equiv> \<lambda>i. (b \<or> uint (buffer s ! i) \<in> set slaves) \<and>
     (uint (buffer s ! (i + 1)) \<in> set (function_codes E)
      \<or> uint (buffer s ! (i + 1)) - 128 \<in> set (function_codes E))"
  shows "(\<forall>i. start \<le> i \<and> i + 3 < length buf \<and> cand i \<and> (\<forall>j. start \<le> j \<and> j < i \<longrightarrow> \<not> cand j)
            \<longrightarrow> getFrameStart E slaves b skip s = (True, s\<lparr>buffer := drop i buf\<rparr>))
       \<and> (3 < length buf \<and> (\<forall>i. start \<le> i \<and> i + 3 < length buf \<longrightarrow> \<not> cand i)
            \<longrightarrow> getFrameStart E slaves b skip s = (False, s\<lparr>buffer := drop (length buf - 3) buf\<rparr>))
       \<and> (length buf \<le> 3 \<longrightarrow> getFrameStart E slaves b skip s = (False, s))"
proof -
  let ?P = "frame_start_at (function_codes E) slaves b (buffer s)"
  have P: "?P i = cand i" for i by (simp add: frame_start_at_iff cand_def)
  have 1: "getFrameStart E slaves b skip s = (True, s\<lparr>buffer := drop i buf\<rparr>)"
    if "start \<le> i" "i + 3 < length buf" "cand i" "\<forall>j. start \<le> j \<and> j < i \<longrightarrow> \<not> cand j" for i
  proof -
    have "find ?P [start ..< length (buffer s) - 3] = Some i"
      using that by (intro find_upt_first) (auto simp: P buf_def)
    then show ?thesis using that(2)
      by (cases "i = 0") (auto simp: getFrameStart_def Let_def buf_def start_def)
  qed
  have 2: "getFrameStart E slaves b skip s = (False, s\<lparr>buffer := drop (length buf - 3) buf\<rparr>)"
    if "3 < length buf" "\<forall>i. start \<le> i \<and> i + 3 < length buf \<longrightarrow> \<not> cand i"
  proof -
    have "find ?P [start ..< length (buffer s) - 3] = None"
      using that by (intro find_upt_none) (auto simp: P buf_def)
    moreover have "nat (int (length (buffer s)) - 3) = length (buffer s) - 3" by simp
    ultimately show ?thesis using that(1)
      by (simp add: getFrameStart_def Let_def buf_def start_def py_slice_from_def py_index_def)
  qed
  have 3: "getFrameStart E slaves b skip s = (False, s)" if "length buf \<le> 3"
    using that by (auto simp: getFrameStart_def Let_def buf_def)
  from 1 2 3 show ?thesis by blast
qed

text \<open>
  The theorem on three buffers: two bytes of noise before a frame (the noise is
  dropped), a rejected frame with no later candidate (the last three bytes stay), and a
  buffer of three bytes (untouched).
\<close>

theorem getFrameStart_scan_witness:
  "getFrameStart demo_rtu_env [1] False False (rtu_start ([255, 255] @ rtu_response)) =
     (True, rtu_start rtu_response)
   \<and> getFrameStart demo_rtu_env [1] False True (rtu_start rtu_bad_crc) =
     (False, rtu_start [10, 0, 0])
   \<and> getFrameStart demo_rtu_env [1] False False (rtu_start [1, 3, 2]) =
     (False, rtu_start [1, 3, 2])"
proof -
  note t1 = getFrameStart_scan[where skip=False and s="rtu_start ([255, 255] @ rtu_response)"
      and b=False and slaves="[1]" and E=demo_rtu_env, THEN conjunct1, rule_format, of 2]
  note t2 = getFrameStart_scan[where skip=True and s="rtu_start rtu_bad_crc"
      and b=False and slaves="[1]" and E=demo_rtu_env, THEN conjunct2, THEN conjunct1, rule_format]
  note t3 = getFrameStart_scan[where skip=False and s="rtu_start [1, 3, 2]"
      and b=False and slaves="[1]" and E=demo_rtu_env, THEN conjunct2, THEN conjunct2, rule_format]
  have two: "j = 0 \<or> j = 1" if "j < 2" for j :: nat using that by auto
  have a: "getFrameStart demo_rtu_env [1] False False (rtu_start ([255, 255] @ rtu_response)) =
     (True, rtu_start rtu_response)"
  proof -
    have "getFrameStart demo_rtu_env [1] False False (rtu_start ([255, 255] @ rtu_response)) =
      (True, (rtu_start ([255, 255] @ rtu_response))
         \<lparr>buffer := drop 2 (buffer (rtu_start ([255, 255] @ rtu_response)))\<rparr>)"
      by (rule t1) (auto simp: rtu_start_def rtu_response_def demo_rtu_env_def dest!: two)
    then show ?thesis by (simp add: rtu_start_def)
  qed
  have three: "i = 1 \<or> i = 2 \<or> i = 3" if "Suc 0 \<le> i" "i < 4" for i :: nat using that by auto
  have b: "getFrameStart demo_rtu_env [1] False True (rtu_start rtu_bad_crc) =
     (False, rtu_start [10, 0, 0])"
  proof -
    have "getFrameStart demo_rtu_env [1] False True (rtu_start rtu_bad_crc) =
      (False, (rtu_start rtu_bad_crc)
         \<lparr>buffer := drop (length (buffer (rtu_start rtu_bad_crc)) - 3)
                      (buffer (rtu_start rtu_bad_crc))\<rparr>)"
      by (rule t2) (auto simp: rtu_start_def rtu_bad_crc_def demo_rtu_env_def dest!: three)
    then show ?thesis by (simp add: rtu_start_def rtu_bad_crc_def)
  qed
  have c: "getFrameStart demo_rtu_env [1] False False (rtu_start [1, 3, 2]) =
     (False, rtu_start [1, 3, 2])"
    using t3 by (simp add: rtu_start_def)
  from a b c show ?thesis by blast
qed

text \<open>
  C5 as stated fails: in \<open>FF FF 01 03\<close> index 2 is the smallest index with a valid
  slave followed by a known function code, but it lies in the last three bytes, which
  the scan does not visit: the scan reports failure and drops one byte, not two.
\<close>

theorem getFrameStart_tail_candidate:
  "uint ([255, 255, 1, 3 :: byte] ! 2) \<in> set [1]
   \<and> uint ([255, 255, 1, 3 :: byte] ! (2 + 1)) \<in> set (function_codes demo_rtu_env)
   \<and> getFrameStart demo_rtu_env [1] False False (rtu_start [255, 255, 1, 3]) =
       (False, rtu_start [255, 1, 3])"
  by (simp add: rtu_eval)

subsection \<open>The CRC written and the CRC checked\<close>

lemma be_bytes_iff:
  fixes w :: "16 word" and a b :: byte
  shows "uint w = uint a * 256 + uint b \<longleftrightarrow> [a, b] = be_bytes (unat w)"
proof
  assume h: "uint w = uint a * 256 + uint b"
  have "uint b < 256" "0 \<le> uint b" using uint_bounded[of b] by simp_all
  with h have "uint w div 256 = uint a" "uint w mod 256 = uint b" by auto
  then have "int (unat w div 256) = uint a" "int (unat w mod 256) = uint b"
    by (simp_all add: zdiv_int zmod_int)
  then have "unat w div 256 = unat a" "unat w mod 256 = unat b"
    by (metis nat_int unat_eq_nat_uint)+
  then show "[a, b] = be_bytes (unat w)" by (simp add: be_bytes_def)
next
  assume h: "[a, b] = be_bytes (unat w)"
  have lt: "unat w < 65536" using unsigned_less[of w, where 'a=nat] by simp
  from h have "a = of_nat (unat w div 256)" "b = of_nat (unat w mod 256)"
    by (simp_all add: be_bytes_def)
  then have "unat a = unat w div 256" "unat b = unat w mod 256"
    using lt by (simp_all add: unat_of_nat take_bit_eq_mod)
  then have "unat w = unat a * 256 + unat b" by simp
  then have "int (unat w) = int (unat a * 256 + unat b)" by simp
  then show "uint w = uint a * 256 + uint b" by simp
qed

lemma rtu_buildPacket_eq:
  "rtu_buildPacket E encode m =
     Inr (([slave_id m, function_code m] @ encode m) @
            be_bytes (unat (computeCRC E ([slave_id m, function_code m] @ encode m))),
          m\<lparr>transaction_id := ucast (slave_id m)\<rparr>)"
  by (simp add: rtu_buildPacket_def Let_def pack_B_byte pack_H_word)

lemma rtu_checkFrame_trailer:
  assumes chk: "\<forall>data check. checkCRC E data check = (uint (computeCRC E data) = check)"
    and sz: "calculateRtuFrameSize E (uint (pre ! 1)) (pre @ a # b # rest) = Some (length pre + 2)"
    and len: "2 \<le> length pre"
  shows "fst (rtu_checkFrame E \<lparr>buffer = pre @ a # b # rest, header = h\<rparr>)
           \<longleftrightarrow> [a, b] = be_bytes (unat (computeCRC E pre))"
proof -
  let ?buf = "pre @ a # b # rest"
  let ?n = "length pre + 2"
  from len obtain p0 p1 ps where pre: "pre = p0 # p1 # ps"
    by (cases pre; cases "tl pre") auto
  have g: "get_expected_response_length E ?buf = Some ?n"
    using sz len by (simp add: get_expected_response_length_def nth_append)
  have n: "nat (2 + int (length pre)) = length pre + 2" by simp
  have c: "py_slice ?buf (int ?n - 2) (int ?n) = [a, b]"
    by (simp add: py_slice_def py_index_def Let_def n)
  have d: "py_slice_to ?buf (int (length pre)) = pre"
    by (simp add: py_slice_to_nat)
  have p: "populateHeader E ?buf h =
             (h\<lparr>rtu_uid := p0, rtu_tid := Some p0, rtu_len := ?n, rtu_crc := [a, b]\<rparr>, Some ?n)"
    using g c by (simp add: populateHeader_def Let_def pre)
  show ?thesis
    by (simp add: rtu_checkFrame_def p Let_def chk be_bytes_iff d)
qed


lemma swapped_bytes:
  assumes "n < 65536"
  shows "be_bytes ((n mod 256) * 256 + n div 256) = le_bytes n"
proof -
  have "n div 256 < 256" using assms by simp
  then have "((n mod 256) * 256 + n div 256) div 256 = n mod 256"
    and "((n mod 256) * 256 + n div 256) mod 256 = n div 256" by simp_all
  then show ?thesis by (simp add: be_bytes_def le_bytes_def)
qed

lemma unat_of_nat16: "k < 65536 \<Longrightarrow> unat (of_nat k :: 16 word) = k"
  by (simp add: unat_of_nat take_bit_eq_mod)

lemma utilities_computeCRC_bytes:
  "be_bytes (unat (utilities_computeCRC data)) = le_bytes (unat (crc16 data))"
proof -
  let ?n = "unat (crc16 data)"
  have lt: "?n < 65536" using unsigned_less[of "crc16 data", where 'a=nat] by simp
  then have "?n div 256 < 256" by simp
  moreover have "?n mod 256 < 256" by simp
  ultimately have "(?n mod 256) * 256 + ?n div 256 < 65536" by simp
  then have "unat (of_nat ((?n mod 256) * 256 + ?n div 256) :: 16 word)
               = (?n mod 256) * 256 + ?n div 256"
    by (rule unat_of_nat16)
  then show ?thesis
    using swapped_bytes[OF lt] by (simp add: utilities_computeCRC_def Let_def)
qed

text \<open>
  C6, as amended. For every message, the packet built by \<open>buildPacket\<close> of the RTU
  framer is the slave id, the function code and the encoded data, followed by the two
  bytes of \<open>computeCRC\<close> of those bytes, packed high byte first. As \<open>computeCRC\<close>
  returns the CRC-16/Modbus with its two bytes swapped, these two bytes are the
  CRC-16/Modbus of the preceding bytes with the low byte first. \<open>checkFrame\<close> reads the
  two bytes at the end of the frame as a big-endian word and gives it to \<open>checkCRC\<close>:
  on a buffer that starts with those bytes and whose frame size is reported as their
  length plus two, it accepts exactly when the two bytes that follow are that trailer.
\<close>

theorem rtu_crc_roundtrip:
  fixes E :: "'a rtu_env" and encode :: "'a pdu_scheme \<Rightarrow> byte list" and m :: "'a pdu_scheme"
  defines "pre \<equiv> [slave_id m, function_code m] @ encode m"
  assumes crc: "computeCRC E = utilities_computeCRC"
    and chk: "checkCRC E = utilities_checkCRC"
  shows "rtu_buildPacket E encode m =
           Inr (pre @ be_bytes (unat (utilities_computeCRC pre)),
                m\<lparr>transaction_id := ucast (slave_id m)\<rparr>)
       \<and> be_bytes (unat (utilities_computeCRC pre)) = le_bytes (unat (crc16 pre))
       \<and> (\<forall>a b rest h.
             calculateRtuFrameSize E (uint (function_code m)) (pre @ a # b # rest)
               = Some (length pre + 2) \<longrightarrow>
             (fst (rtu_checkFrame E \<lparr>buffer = pre @ a # b # rest, header = h\<rparr>)
                \<longleftrightarrow> [a, b] = le_bytes (unat (crc16 pre))))"
proof -
  have 1: "rtu_buildPacket E encode m =
           Inr (pre @ be_bytes (unat (utilities_computeCRC pre)),
                m\<lparr>transaction_id := ucast (slave_id m)\<rparr>)"
    unfolding pre_def using rtu_buildPacket_eq[of E encode m] by (simp add: crc)
  have c: "\<forall>data check. checkCRC E data check = (uint (computeCRC E data) = check)"
    by (simp add: crc chk utilities_checkCRC_def)
  have 2: "fst (rtu_checkFrame E \<lparr>buffer = pre @ a # b # rest, header = h\<rparr>)
                \<longleftrightarrow> [a, b] = le_bytes (unat (crc16 pre))"
    if "calculateRtuFrameSize E (uint (function_code m)) (pre @ a # b # rest)
               = Some (length pre + 2)" for a b rest h
  proof -
    have "fst (rtu_checkFrame E \<lparr>buffer = pre @ a # b # rest, header = h\<rparr>)
                \<longleftrightarrow> [a, b] = be_bytes (unat (computeCRC E pre))"
    proof (rule rtu_checkFrame_trailer[OF c])
      show "calculateRtuFrameSize E (uint (pre ! 1)) (pre @ a # b # rest) = Some (length pre + 2)"
        using that by (simp add: pre_def)
      show "2 \<le> length pre" by (simp add: pre_def)
    qed
    then show ?thesis by (simp add: crc utilities_computeCRC_bytes)
  qed
  from 1 2 utilities_computeCRC_bytes[of pre] show ?thesis by blast
qed

text \<open>
  The theorem on the message of slave 1 with function code 3 and data \<open>02 00 0A\<close>:
  the packet is \<open>01 03 02 00 0A 38 43\<close>, which \<open>checkFrame\<close> accepts, while it
  rejects the same bytes with the trailer \<open>00 00\<close>.
\<close>

theorem rtu_crc_roundtrip_witness:
  "rtu_buildPacket demo_rtu_env (\<lambda>m. [2, 0, 10])
     \<lparr>function_code = 3, slave_id = 1, transaction_id = 0, protocol_id = 0\<rparr> =
     Inr (rtu_response, \<lparr>function_code = 3, slave_id = 1, transaction_id = 1, protocol_id = 0\<rparr>)
   \<and> rtu_response = [1, 3, 2, 0, 10] @ le_bytes (unat (crc16 [1, 3, 2, 0, 10]))
   \<and> fst (rtu_checkFrame demo_rtu_env (rtu_start rtu_response))
   \<and> \<not> fst (rtu_checkFrame demo_rtu_env (rtu_start rtu_bad_crc))"
proof -
  have e1: "computeCRC demo_rtu_env = utilities_computeCRC"
    and e2: "checkCRC demo_rtu_env = utilities_checkCRC"
    by (simp_all add: demo_rtu_env_def)
  note t = rtu_crc_roundtrip[where E=demo_rtu_env and encode="\<lambda>m. [2, 0, 10]"
      and m="\<lparr>function_code = 3, slave_id = 1, transaction_id = 0, protocol_id = 0\<rparr>",
      OF e1 e2]
  have le: "le_bytes (unat (crc16 [1, 3, 2, 0, 10])) = [0x38, 0x43]"
    by (simp add: crc16_response le_bytes_def)
  have a: "rtu_buildPacket demo_rtu_env (\<lambda>m. [2, 0, 10])
     \<lparr>function_code = 3, slave_id = 1, transaction_id = 0, protocol_id = 0\<rparr> =
     Inr (rtu_response, \<lparr>function_code = 3, slave_id = 1, transaction_id = 1, protocol_id = 0\<rparr>)"
    using t[THEN conjunct1] t[THEN conjunct2, THEN conjunct1]
    by (simp add: le rtu_response_def)
  have r: "rtu_response = [1, 3, 2, 0, 10] @ le_bytes (unat (crc16 [1, 3, 2, 0, 10]))"
    by (simp add: le rtu_response_def)
  have b: "fst (rtu_checkFrame demo_rtu_env (rtu_start rtu_response))"
    using t[THEN conjunct2, THEN conjunct2, rule_format, of "0x38" "0x43" "[]" rtu_zero_header]
    by (simp add: demo_rtu_env_def le rtu_response_def rtu_start_def)
  have c: "\<not> fst (rtu_checkFrame demo_rtu_env (rtu_start rtu_bad_crc))"
    using t[THEN conjunct2, THEN conjunct2, rule_format, of 0 0 "[]" rtu_zero_header]
    by (simp add: demo_rtu_env_def le rtu_bad_crc_def rtu_start_def)
  from a r b c show ?thesis by blast
qed

text \<open>
  C6 as stated fails: the CRC-16/Modbus of \<open>01 03 02 00 0A\<close> is 0x4338, so the packet
  with that CRC packed big-endian would end \<open>43 38\<close>. \<open>buildPacket\<close> returns a
  packet that ends \<open>38 43\<close>, and \<open>checkFrame\<close> rejects the one that ends
  \<open>43 38\<close>.
\<close>

theorem rtu_crc_big_endian_counterexample:
  "rtu_buildPacket demo_rtu_env (\<lambda>m. [2, 0, 10])
     \<lparr>function_code = 3, slave_id = 1, transaction_id = 0, protocol_id = 0\<rparr> =
     Inr ([1, 3, 2, 0, 10, 0x38, 0x43],
          \<lparr>function_code = 3, slave_id = 1, transaction_id = 1, protocol_id = 0\<rparr>)
   \<and> [1, 3, 2, 0, 10] @ be_bytes (unat (crc16 [1, 3, 2, 0, 10])) = [1, 3, 2, 0, 10, 0x43, 0x38]
   \<and> \<not> fst (rtu_checkFrame demo_rtu_env (rtu_start [1, 3, 2, 0, 10, 0x43, 0x38]))"
proof -
  have a: "rtu_buildPacket demo_rtu_env (\<lambda>m. [2, 0, 10])
     \<lparr>function_code = 3, slave_id = 1, transaction_id = 0, protocol_id = 0\<rparr> =
     Inr ([1, 3, 2, 0, 10, 0x38, 0x43],
          \<lparr>function_code = 3, slave_id = 1, transaction_id = 1, protocol_id = 0\<rparr>)"
    by (simp add: rtu_buildPacket_eq demo_rtu_env_def computeCRC_response be_bytes_def)
  have b: "[1, 3, 2, 0, 10] @ be_bytes (unat (crc16 [1, 3, 2, 0, 10])) = [1, 3, 2, 0, 10, 0x43, 0x38]"
    by (simp add: crc16_response be_bytes_def)
  have c: "\<not> fst (rtu_checkFrame demo_rtu_env (rtu_start [1, 3, 2, 0, 10, 0x43, 0x38]))"
    by (simp add: rtu_eval computeCRC_response)
  from a b c show ?thesis by blast
qed

subsection \<open>The slave id as transaction id\<close>

text \<open>
  What a pass of the receive loop hands to the callback is read off the frame that
  \<open>getFrameStart\<close> has put at the head of the buffer: \<open>populateHeader\<close> stores the
  first byte of that frame as \<open>uid\<close> and as \<open>tid\<close>, \<open>getFrame\<close> cuts the payload
  between that byte and the two bytes of the CRC, and \<open>populateResult\<close> copies
  \<open>uid\<close> and \<open>tid\<close> into the decoded PDU.
\<close>

lemma populateHeader_size:
  "populateHeader E data h = (h', Some sz) \<Longrightarrow>
     calculateRtuFrameSize E (uint (data ! 1)) data = Some sz"
  by (auto simp: populateHeader_def get_expected_response_length_def Let_def
           split: list.splits option.splits if_splits)

lemma rtu_checkFrame_size:
  assumes "rtu_checkFrame E s = (True, s')"
  shows "calculateRtuFrameSize E (uint (buffer s ! 1)) (buffer s) = Some (rtu_len (header s'))"
proof -
  from assms obtain h sz where p: "populateHeader E (buffer s) (header s) = (h, Some sz)"
    and s': "s' = s\<lparr>header := h\<rparr>"
    by (auto simp: rtu_checkFrame_def Let_def split: prod.splits option.splits if_splits)
  from populateHeader_size[OF p] populateHeader_Some[OF p] s' show ?thesis by simp
qed

lemma rtu_getFrame_eq:
  "rtu_getFrame s = take (rtu_len (header s) - 3) (drop 1 (buffer s))"
proof (cases "2 < rtu_len (header s)")
  case True
  then have "int (rtu_len (header s)) - 2 = int (rtu_len (header s) - 2)" by simp
  moreover have "py_slice (buffer s) (int 1) (int (rtu_len (header s) - 2))
                   = take (rtu_len (header s) - 2 - 1) (drop 1 (buffer s))"
    by (rule py_slice_nat)
  moreover have "rtu_len (header s) - 2 - 1 = rtu_len (header s) - 3" by simp
  ultimately show ?thesis using True by (simp add: rtu_getFrame_def Let_def)
next
  case False
  then show ?thesis by (simp add: rtu_getFrame_def Let_def)
qed

lemma rtu_pass_delivers:
  assumes "rtu_pass E single slave b skip s = Again skip' s' (Some r)"
  shows "\<exists>i n r0.
           getFrameStart E slave b skip s = (True, s\<lparr>buffer := drop i (buffer s)\<rparr>)
           \<and> i + 3 < length (buffer s)
           \<and> calculateRtuFrameSize E (uint (buffer s ! (i + 1))) (drop i (buffer s)) = Some n
           \<and> 2 \<le> n \<and> i + n \<le> length (buffer s)
           \<and> decode E (take (n - 3) (drop (i + 1) (buffer s))) = Some r0
           \<and> r = r0\<lparr>slave_id := buffer s ! i, transaction_id := ucast (buffer s ! i)\<rparr>
           \<and> buffer s' = drop (i + n) (buffer s)"
proof -
  from assms obtain s1 s2 s3 where
    g: "getFrameStart E slave b skip s = (True, s1)"
    and rd: "rtu_isFrameReady E s1 = (True, s2)"
    and c: "rtu_checkFrame E s2 = (True, s3)"
    and p: "rtu_process E False s3 = (s', Inr r)"
    by (auto simp: rtu_pass_def split: prod.splits bool.splits if_splits sum.splits)
  from getFrameStart_True[OF g] obtain i where
    i: "i + 3 < length (buffer s)" and s1: "s1 = s\<lparr>buffer := drop i (buffer s)\<rparr>" by blast
  let ?data = "drop i (buffer s)"
  let ?n = "rtu_len (header s3)"
  have b2: "buffer s2 = ?data" using rtu_isFrameReady_buffer[OF rd] s1 by simp
  have b3: "buffer s3 = ?data" using rtu_checkFrame_buffer[OF c] b2 by simp
  from rtu_checkFrame_True[OF c] b2
  have n: "2 \<le> ?n" "?n \<le> length ?data"
    and u: "rtu_uid (header s3) = hd ?data"
    and t: "rtu_tid (header s3) = Some (hd ?data)" by simp_all
  have h: "hd ?data = buffer s ! i" using i by (simp add: hd_drop_conv_nth)
  have d1: "?data ! 1 = buffer s ! (i + 1)" using i by simp
  from rtu_checkFrame_size[OF c] b2 d1
  have sz: "calculateRtuFrameSize E (uint (buffer s ! (i + 1))) ?data = Some ?n" by simp
  have gf: "rtu_getFrame s3 = take (?n - 3) (drop (i + 1) (buffer s))"
    by (simp add: rtu_getFrame_eq b3 add.commute)
  from p obtain r0 where
    dec: "decode E (rtu_getFrame s3) = Some r0"
    and pr: "rtu_populateResult (header s3) r0 = Inr r"
    and s': "s' = rtu_advanceFrame s3"
    by (auto simp: rtu_process_def Let_def split: option.splits if_splits sum.splits)
  from pr u t h have r: "r = r0\<lparr>slave_id := buffer s ! i, transaction_id := ucast (buffer s ! i)\<rparr>"
    by (auto simp: rtu_populateResult_def split: option.splits)
  from s' b3 have bs: "buffer s' = drop (i + ?n) (buffer s)"
    by (simp add: rtu_advanceFrame_def add.commute)
  from n i have le: "i + ?n \<le> length (buffer s)" by simp
  from g s1 i sz n(1) le dec gf r bs show ?thesis by auto
qed


lemma rtu_pass_suffix:
  assumes "rtu_pass E single slave b skip s = Again skip' s' r"
  shows "\<exists>j. buffer s' = drop j (buffer s)"
proof -
  from assms obtain s1 s2 ok s3 where
    g: "getFrameStart E slave b skip s = (True, s1)"
    and rd: "rtu_isFrameReady E s1 = (True, s2)"
    and c: "rtu_checkFrame E s2 = (ok, s3)"
    by (auto simp: rtu_pass_def split: prod.splits bool.splits if_splits)
  from getFrameStart_True[OF g] obtain i where
    s1: "s1 = s\<lparr>buffer := drop i (buffer s)\<rparr>" by blast
  have b3: "buffer s3 = drop i (buffer s)"
    using rtu_isFrameReady_buffer[OF rd] rtu_checkFrame_buffer[OF c] s1 by simp
  show ?thesis
  proof (cases "s' = rtu_resetFrame E s3")
    case True
    then show ?thesis using b3 by (auto simp: rtu_resetFrame_buffer)
  next
    case False
    with assms g rd c have "\<exists>x. rtu_process E False s3 = (s', Inr x)"
      by (auto simp: rtu_pass_def split: prod.splits bool.splits if_splits sum.splits)
    with rtu_process_Inr have "s' = rtu_advanceFrame s3" by blast
    then have "buffer s' = drop (rtu_len (header s3) + i) (buffer s)"
      using b3 by (simp add: rtu_advanceFrame_def)
    then show ?thesis by blast
  qed
qed

lemma rtu_loop_delivered:
  assumes "rtu_loop E single slave b skip s out = (s', out', e)"
  shows "\<forall>r\<in>set out'. r \<in> set out \<or>
           (\<exists>k skip0 s0 skip1 s1. buffer s0 = drop k (buffer s)
              \<and> rtu_pass E single slave b skip0 s0 = Again skip1 s1 (Some r))"
  using assms
proof (induction E single slave b skip s out rule: rtu_loop.induct)
  case (1 E single slave b skip s out)
  show ?case
  proof (cases "rtu_pass E single slave b skip s")
    case (Stop s1)
    with "1.prems" show ?thesis by (simp add: rtu_loop_Stop)
  next
    case (Raise s1 e1)
    with "1.prems" show ?thesis by (simp add: rtu_loop_Raise)
  next
    case (Again skip1 s1 r1)
    let ?out = "out @ (case r1 of None \<Rightarrow> [] | Some x \<Rightarrow> [x])"
    have l: "rtu_loop E single slave b skip1 s1 ?out = (s', out', e)"
      using "1.prems" rtu_loop_Again[OF Again] by simp
    from rtu_pass_suffix[OF Again] obtain j where j: "buffer s1 = drop j (buffer s)" by blast
    show ?thesis
    proof
      fix r assume "r \<in> set out'"
      with "1.IH"[OF Again l] consider
        (old) "r \<in> set out" | (new) "r1 = Some r"
        | (later) k skip0 s0 skip2 s2 where "buffer s0 = drop k (buffer s1)"
            "rtu_pass E single slave b skip0 s0 = Again skip2 s2 (Some r)"
        by (cases r1) auto
      then show "r \<in> set out \<or>
           (\<exists>k skip0 s0 skip1 s1. buffer s0 = drop k (buffer s)
              \<and> rtu_pass E single slave b skip0 s0 = Again skip1 s1 (Some r))"
      proof cases
        case old
        then show ?thesis by simp
      next
        case new
        with Again have "buffer s = drop 0 (buffer s)"
          "rtu_pass E single slave b skip s = Again skip1 s1 (Some r)" by simp_all
        then show ?thesis by blast
      next
        case later
        with j have "buffer s0 = drop (k + j) (buffer s)" by (simp add: add.commute)
        with later(2) show ?thesis by blast
      qed
    qed
  qed
qed

text \<open>
  C9. Every PDU that leaves the RTU framer carries the slave id as its transaction id.
  \<open>buildPacket\<close> leaves the message with its slave id unchanged and its
  transaction id equal to it. On receive, a pass of the loop that hands a PDU to the
  callback has found a frame start at some index \<open>i\<close> of the buffer (the index at
  which \<open>getFrameStart\<close> cuts the buffer), the size calculator gives the frame at
  \<open>i\<close> a length \<open>n\<close> that fits the buffer, the PDU is what the decoder returns for
  the \<open>n - 3\<close> bytes behind byte \<open>i\<close>, with its slave id and its transaction id
  both overwritten by byte \<open>i\<close>, the first (uid) byte of that frame, and the buffer is
  left behind the frame. Every PDU that \<open>frameProcessIncomingPacket\<close> delivers has
  its transaction id equal to its slave id and is handed over by such a pass on a suffix
  of the buffer.
\<close>

theorem rtu_transaction_id_is_slave_id:
  "(\<forall>p m'. rtu_buildPacket E encode m = Inr (p, m') \<longrightarrow>
       slave_id m' = slave_id m \<and> transaction_id m' = ucast (slave_id m'))
   \<and> (\<forall>skip' s' r. rtu_pass E single slave b skip s = Again skip' s' (Some r) \<longrightarrow>
         (\<exists>i n r0.
            getFrameStart E slave b skip s = (True, s\<lparr>buffer := drop i (buffer s)\<rparr>)
            \<and> i + 3 < length (buffer s)
            \<and> calculateRtuFrameSize E (uint (buffer s ! (i + 1))) (drop i (buffer s)) = Some n
            \<and> 2 \<le> n \<and> i + n \<le> length (buffer s)
            \<and> decode E (take (n - 3) (drop (i + 1) (buffer s))) = Some r0
            \<and> r = r0\<lparr>slave_id := buffer s ! i, transaction_id := ucast (buffer s ! i)\<rparr>
            \<and> buffer s' = drop (i + n) (buffer s)))
   \<and> (\<forall>s' out e. rtu_frameProcessIncomingPacket E single slave s = (s', out, e) \<longrightarrow>
         (\<forall>r\<in>set out.
            transaction_id r = ucast (slave_id r)
            \<and> (\<exists>k skip0 s0 skip1 s1. buffer s0 = drop k (buffer s)
                  \<and> rtu_pass E single slave (hd slave = 0) skip0 s0 = Again skip1 s1 (Some r))))"
proof -
  have 1: "slave_id m' = slave_id m \<and> transaction_id m' = ucast (slave_id m')"
    if "rtu_buildPacket E encode m = Inr (p, m')" for p m'
    using that by (auto simp: rtu_buildPacket_eq)
  have 2: "\<exists>i n r0.
            getFrameStart E slave b skip s = (True, s\<lparr>buffer := drop i (buffer s)\<rparr>)
            \<and> i + 3 < length (buffer s)
            \<and> calculateRtuFrameSize E (uint (buffer s ! (i + 1))) (drop i (buffer s)) = Some n
            \<and> 2 \<le> n \<and> i + n \<le> length (buffer s)
            \<and> decode E (take (n - 3) (drop (i + 1) (buffer s))) = Some r0
            \<and> r = r0\<lparr>slave_id := buffer s ! i, transaction_id := ucast (buffer s ! i)\<rparr>
            \<and> buffer s' = drop (i + n) (buffer s)"
    if "rtu_pass E single slave b skip s = Again skip' s' (Some r)" for skip' s' r
    using that by (rule rtu_pass_delivers)
  have 3: "\<forall>r\<in>set out.
            transaction_id r = ucast (slave_id r)
            \<and> (\<exists>k skip0 s0 skip1 s1. buffer s0 = drop k (buffer s)
                  \<and> rtu_pass E single slave (hd slave = 0) skip0 s0 = Again skip1 s1 (Some r))"
    if "rtu_frameProcessIncomingPacket E single slave s = (s', out, e)" for s' out e
  proof (cases slave)
    case Nil
    with that show ?thesis by (simp add: rtu_frameProcessIncomingPacket_def)
  next
    case (Cons x rest)
    with that have "rtu_loop E single slave (hd slave = 0) False s [] = (s', out, e)"
      by (simp add: rtu_frameProcessIncomingPacket_def)
    from rtu_loop_delivered[OF this]
    have o: "\<forall>r\<in>set out. \<exists>k skip0 s0 skip1 s1. buffer s0 = drop k (buffer s)
                  \<and> rtu_pass E single slave (hd slave = 0) skip0 s0 = Again skip1 s1 (Some r)"
      by simp
    show ?thesis
    proof
      fix r assume "r \<in> set out"
      with o obtain k skip0 s0 skip1 s1 where k: "buffer s0 = drop k (buffer s)"
        and p: "rtu_pass E single slave (hd slave = 0) skip0 s0 = Again skip1 s1 (Some r)"
        by blast
      from rtu_pass_delivers[OF p] have "transaction_id r = ucast (slave_id r)" by auto
      with k p show "transaction_id r = ucast (slave_id r)
            \<and> (\<exists>k skip0 s0 skip1 s1. buffer s0 = drop k (buffer s)
                  \<and> rtu_pass E single slave (hd slave = 0) skip0 s0 = Again skip1 s1 (Some r))"
        by blast
    qed
  qed
  from 1 2 3 show ?thesis by blast
qed

text \<open>
  The response \<open>01 03 02 00 0A 38 43\<close> behind two bytes of noise \<open>FF FF\<close>, for
  slave 1.
\<close>

lemma gfs_noise:
  "getFrameStart demo_rtu_env [1] False False (rtu_start rtu_noisy) =
     (True, rtu_start rtu_response)"
  by (simp add: rtu_eval rtu_noisy_def rtu_response_def)

lemma process_response:
  "rtu_process demo_rtu_env False \<lparr>buffer = rtu_response, header = rtu_response_header [0x38, 0x43]\<rparr>
     = (\<lparr>buffer = [], header = \<lparr>rtu_uid = 0, rtu_tid = None, rtu_len = 0, rtu_crc = [0, 0]\<rparr>\<rparr>,
        Inr \<lparr>function_code = 3, slave_id = 1, transaction_id = 1, protocol_id = 0\<rparr>)"
  by (simp add: rtu_process_def rtu_getFrame_def rtu_populateResult_def rtu_advanceFrame_def
      rtu_eval rtu_response_def demo_decode_def)

lemma pass_noise:
  "rtu_pass demo_rtu_env False [1] False False (rtu_start rtu_noisy) =
     Again False \<lparr>buffer = [], header = \<lparr>rtu_uid = 0, rtu_tid = None, rtu_len = 0, rtu_crc = [0, 0]\<rparr>\<rparr>
       (Some \<lparr>function_code = 3, slave_id = 1, transaction_id = 1, protocol_id = 0\<rparr>)"
proof -
  have v: "validate_slave_id demo_rtu_env (rtu_response_header [0x38, 0x43]) [1] False"
    by (simp add: demo_rtu_env_def rtu_response_header_def)
  show ?thesis
    by (simp add: rtu_pass_def gfs_noise ready_response check_response process_response v)
qed

lemma pass_empty:
  "rtu_pass E single slave b skip \<lparr>buffer = [], header = h\<rparr> = Stop \<lparr>buffer = [], header = h\<rparr>"
  by (simp add: rtu_pass_def getFrameStart_def)

lemma frameProcess_noise:
  "rtu_frameProcessIncomingPacket demo_rtu_env False [1] (rtu_start rtu_noisy) =
     (\<lparr>buffer = [], header = \<lparr>rtu_uid = 0, rtu_tid = None, rtu_len = 0, rtu_crc = [0, 0]\<rparr>\<rparr>,
      [\<lparr>function_code = 3, slave_id = 1, transaction_id = 1, protocol_id = 0\<rparr>], None)"
proof -
  have "rtu_loop demo_rtu_env False [1] False False (rtu_start rtu_noisy) [] =
     (\<lparr>buffer = [], header = \<lparr>rtu_uid = 0, rtu_tid = None, rtu_len = 0, rtu_crc = [0, 0]\<rparr>\<rparr>,
      [\<lparr>function_code = 3, slave_id = 1, transaction_id = 1, protocol_id = 0\<rparr>], None)"
    by (simp add: rtu_loop_Again[OF pass_noise] rtu_loop_Stop[OF pass_empty])
  then show ?thesis by (simp add: rtu_frameProcessIncomingPacket_def)
qed

text \<open>
  On that buffer one PDU is delivered; the frame starts at index 2, and the slave id and
  the transaction id of the PDU are byte 2 of the buffer, not its first byte \<open>FF\<close>.
  A request built for slave 1 with transaction id 0 leaves \<open>buildPacket\<close> with
  transaction id 1.
\<close>

theorem rtu_transaction_id_is_slave_id_witness:
  "rtu_frameProcessIncomingPacket demo_rtu_env False [1] (rtu_start rtu_noisy) =
     (\<lparr>buffer = [], header = \<lparr>rtu_uid = 0, rtu_tid = None, rtu_len = 0, rtu_crc = [0, 0]\<rparr>\<rparr>,
      [\<lparr>function_code = 3, slave_id = 1, transaction_id = 1, protocol_id = 0\<rparr>], None)
   \<and> getFrameStart demo_rtu_env [1] False False (rtu_start rtu_noisy) =
       (True, (rtu_start rtu_noisy)\<lparr>buffer := drop 2 rtu_noisy\<rparr>)
   \<and> slave_id \<lparr>function_code = 3, slave_id = 1, transaction_id = 1, protocol_id = 0\<rparr>
       = rtu_noisy ! 2
   \<and> transaction_id \<lparr>function_code = 3, slave_id = (1 :: byte), transaction_id = 1,
         protocol_id = 0\<rparr> = ucast (rtu_noisy ! 2)
   \<and> rtu_noisy ! 0 = 255
   \<and> (\<exists>p m'. rtu_buildPacket demo_rtu_env (\<lambda>m. [2, 0, 10])
          \<lparr>function_code = 3, slave_id = 1, transaction_id = 0, protocol_id = 0\<rparr> = Inr (p, m')
          \<and> slave_id m' = 1 \<and> transaction_id m' = ucast (slave_id m'))"
proof -
  let ?r = "\<lparr>function_code = 3, slave_id = (1 :: byte), transaction_id = 1, protocol_id = 0\<rparr>"
  note t = rtu_transaction_id_is_slave_id[where E=demo_rtu_env and single=False and slave="[1]"
      and s="rtu_start rtu_noisy" and b=False and skip=False and encode="\<lambda>m. [2, 0, 10]"
      and m="\<lparr>function_code = 3, slave_id = 1, transaction_id = 0, protocol_id = 0\<rparr>"]
  from t[THEN conjunct2, THEN conjunct1, rule_format, OF pass_noise]
  obtain i and n :: nat and r0 :: pdu where
    g: "getFrameStart demo_rtu_env [1] False False (rtu_start rtu_noisy) =
          (True, (rtu_start rtu_noisy)\<lparr>buffer := drop i (buffer (rtu_start rtu_noisy))\<rparr>)"
    and i: "i + 3 < length (buffer (rtu_start rtu_noisy))"
    and r: "?r = r0\<lparr>slave_id := buffer (rtu_start rtu_noisy) ! i,
                     transaction_id := ucast (buffer (rtu_start rtu_noisy) ! i)\<rparr>"
    by blast
  have bn: "buffer (rtu_start rtu_noisy) = rtu_noisy" by (simp add: rtu_start_def)
  from g gfs_noise have "drop i rtu_noisy = rtu_response" by (simp add: rtu_start_def)
  then have "length (drop i rtu_noisy) = length rtu_response" by simp
  with i have i2: "i = 2" by (simp add: bn rtu_noisy_def rtu_response_def)
  from g i2 have a: "getFrameStart demo_rtu_env [1] False False (rtu_start rtu_noisy) =
       (True, (rtu_start rtu_noisy)\<lparr>buffer := drop 2 rtu_noisy\<rparr>)" by (simp add: bn)
  from r have "slave_id ?r = slave_id (r0\<lparr>slave_id := buffer (rtu_start rtu_noisy) ! i,
                     transaction_id := ucast (buffer (rtu_start rtu_noisy) ! i)\<rparr>)"
    by simp
  then have b1: "slave_id ?r = rtu_noisy ! 2" unfolding bn i2 by simp
  from r have "transaction_id ?r = transaction_id (r0\<lparr>slave_id := buffer (rtu_start rtu_noisy) ! i,
                     transaction_id := ucast (buffer (rtu_start rtu_noisy) ! i)\<rparr>)"
    by simp
  then have b2: "transaction_id ?r = ucast (rtu_noisy ! 2)" unfolding bn i2 by simp
  have c: "rtu_noisy ! 0 = 255" by (simp add: rtu_noisy_def)
  obtain p m' where bp: "rtu_buildPacket demo_rtu_env (\<lambda>m. [2, 0, 10])
          \<lparr>function_code = 3, slave_id = 1, transaction_id = 0, protocol_id = 0\<rparr> = Inr (p, m')"
    by (simp add: rtu_buildPacket_eq)
  from t[THEN conjunct1, rule_format, OF bp] bp
  have d: "\<exists>p m'. rtu_buildPacket demo_rtu_env (\<lambda>m. [2, 0, 10])
          \<lparr>function_code = 3, slave_id = 1, transaction_id = 0, protocol_id = 0\<rparr> = Inr (p, m')
          \<and> slave_id m' = 1 \<and> transaction_id m' = ucast (slave_id m')" by auto
  from frameProcess_noise a b1 b2 c d show ?thesis by blast
qed

section \<open>Where the code leaves its own frame layout\<close>

text \<open>
  A frame on the socket carrier occupies \<open>hsize - 1 + len\<close> bytes, as the class
  documents (\<open>message[0:7 + length - 1]\<close>) and as \<open>checkFrame\<close> counts when it
  waits for a complete frame. \<open>advanceFrame\<close> and \<open>getFrame\<close> count
  \<open>hsize + len\<close>: one byte more.
\<close>

lemma socket_advanceFrame_buffer:
  "buffer (socket_advanceFrame s) = drop (hsize + mbap_len (header s)) (buffer s)"
  by (simp add: socket_advanceFrame_def Let_def py_slice_from_nat)

lemma socket_getFrame_eq:
  "socket_getFrame s = take (mbap_len (header s)) (drop hsize (buffer s))"
  using py_slice_nat[of "buffer s" 7 "7 + mbap_len (header s)"]
  by (simp add: socket_getFrame_def Let_def)

text \<open>
  C1, on two back-to-back frames \<open>00 01 00 00 00 06 01 03 00 00 00 0A\<close> and
  \<open>00 02 00 00 00 06 01 03 00 00 00 0B\<close>. The first call delivers one PDU, decoded
  from a payload of six bytes that ends with the first byte of the second frame, and
  leaves the second frame without its first byte; the next call reads a header with
  length 1537 out of what is left and delivers nothing.
\<close>

theorem socket_two_frames_eval:
  "socket_frameProcessIncomingPacket demo_socket_env True [] None
     (socket_start (mbap_request @ mbap_request2)) =
     (socket_start [2, 0, 0, 0, 6, 1, 3, 0, 0, 0, 11],
      Inr (Some \<lparr>function_code = 3, slave_id = 1, transaction_id = 1, protocol_id = 0\<rparr>))
   \<and> socket_getFrame \<lparr>buffer = mbap_request @ mbap_request2,
        header = \<lparr>mbap_tid = 1, mbap_pid = 0, mbap_len = 6, mbap_uid = 1\<rparr>\<rparr> =
       [3, 0, 0, 0, 10, 0]
   \<and> socket_frameProcessIncomingPacket demo_socket_env True [] None
       (socket_start [2, 0, 0, 0, 6, 1, 3, 0, 0, 0, 11]) =
     (\<lparr>buffer = [2, 0, 0, 0, 6, 1, 3, 0, 0, 0, 11],
        header = \<lparr>mbap_tid = 512, mbap_pid = 0, mbap_len = 1537, mbap_uid = 3\<rparr>\<rparr>, Inr None)"
  by (simp add: socket_frameProcessIncomingPacket_def socket_process_def socket_eval
      mbap_request_def mbap_request2_def socket_validate_slave_id_def demo_socket_env_def
      demo_decode_def)

text \<open>
  C3, on a header with length field 1 followed by a frame: \<open>checkFrame\<close> reports
  not ready without an error and nothing is delivered, but eight bytes are dropped, the
  seven of the header and the first byte of the frame behind it.
\<close>

theorem socket_short_length_eval:
  "socket_checkFrame (socket_start (mbap_short_header @ mbap_request2)) =
     (socket_start [2, 0, 0, 0, 6, 1, 3, 0, 0, 0, 11], Inr False)
   \<and> drop 7 (mbap_short_header @ mbap_request2) = mbap_request2
   \<and> socket_frameProcessIncomingPacket demo_socket_env True [] None
       (socket_start (mbap_short_header @ mbap_request2)) =
     (socket_start [2, 0, 0, 0, 6, 1, 3, 0, 0, 0, 11], Inr None)"
  by (simp add: socket_frameProcessIncomingPacket_def socket_eval
      mbap_short_header_def mbap_request2_def)

text \<open>
  In \<open>_process\<close> of the RTU framer a payload that the decoder does not decode
  raises before \<open>advanceFrame\<close> is reached; \<open>_process\<close> of the socket framer
  resets the frame before it raises.
\<close>

lemma rtu_process_undecoded:
  "decode E (rtu_getFrame s) = None \<Longrightarrow> rtu_process E False s = (s, Inl ModbusIOException)"
  by (simp add: rtu_process_def)

text \<open>
  C2, on the well-formed frame \<open>01 03 02 00 0A 38 43\<close> with a decoder that returns
  \<open>None\<close>: the error is raised and the buffer still holds the whole frame, so the
  next call finds the same frame and raises again.
\<close>

theorem rtu_undecoded_frame_eval:
  "rtu_frameProcessIncomingPacket deaf_rtu_env False [1] (rtu_start rtu_response) =
     (\<lparr>buffer = rtu_response, header = rtu_response_header [0x38, 0x43]\<rparr>,
      [], Some ModbusIOException)
   \<and> rtu_frameProcessIncomingPacket deaf_rtu_env False [1]
       \<lparr>buffer = rtu_response, header = rtu_response_header [0x38, 0x43]\<rparr> =
     (\<lparr>buffer = rtu_response, header = rtu_response_header [0x38, 0x43]\<rparr>,
      [], Some ModbusIOException)"
proof -
  let ?s = "\<lparr>buffer = rtu_response, header = rtu_response_header [0x38, 0x43]\<rparr>"
  have g1: "getFrameStart deaf_rtu_env [1] False False (rtu_start rtu_response) =
              (True, rtu_start rtu_response)"
    by (simp add: rtu_eval deaf_rtu_env_def rtu_response_def)
  have g2: "getFrameStart deaf_rtu_env [1] False False ?s = (True, ?s)"
    by (simp add: rtu_eval deaf_rtu_env_def rtu_response_def)
  have r1: "rtu_isFrameReady deaf_rtu_env (rtu_start rtu_response) = (True, ?s)"
    by (simp add: rtu_eval deaf_rtu_env_def rtu_response_def)
  have r2: "rtu_isFrameReady deaf_rtu_env ?s = (True, ?s)"
    by (simp add: rtu_eval deaf_rtu_env_def rtu_response_def)
  have c: "rtu_checkFrame deaf_rtu_env ?s = (True, ?s)"
    by (simp add: rtu_eval deaf_rtu_env_def rtu_response_def computeCRC_response)
  have v: "validate_slave_id deaf_rtu_env (rtu_response_header [0x38, 0x43]) [1] False"
    by (simp add: deaf_rtu_env_def demo_rtu_env_def rtu_response_header_def)
  have p: "rtu_process deaf_rtu_env False ?s = (?s, Inl ModbusIOException)"
    by (rule rtu_process_undecoded) (simp add: deaf_rtu_env_def)
  have p1: "rtu_pass deaf_rtu_env False [1] False False (rtu_start rtu_response) =
              Raise ?s ModbusIOException"
    by (simp add: rtu_pass_def g1 r1 c v p)
  have p2: "rtu_pass deaf_rtu_env False [1] False False ?s = Raise ?s ModbusIOException"
    by (simp add: rtu_pass_def g2 r2 c v p)
  show ?thesis
    by (simp add: rtu_frameProcessIncomingPacket_def rtu_loop_Raise[OF p1] rtu_loop_Raise[OF p2])
qed

end
